theory Spec2Isabelle
  imports Main
begin

section \<open>Data model (db/schema.sql)\<close>

text \<open>
  Identifiers are the textual form of the UUID columns. The enum types of the schema
  are datatypes; a table is the list of its rows, in storage order.
\<close>

type_synonym uuid = string

datatype global_status = ACTIVE | BANNED | ADMIN
datatype workspace_role = Owner | Member | Viewer
datatype project_role = Project_Lead | Contributor | Project_Viewer
datatype task_status = TODO | IN_PROGRESS | DONE

record user_row =
  user_id :: uuid
  user_email :: string
  user_password_hash :: string
  user_full_name :: string
  user_global_status :: global_status

record device_row =
  dev_user_id :: uuid
  dev_device_id :: string
  dev_ip_address :: "string option"
  dev_user_agent :: "string option"
  dev_login_time :: nat
  dev_is_revoked :: bool
  dev_revoked_at :: "nat option"

record wm_row =
  wm_workspace_id :: uuid
  wm_user_id :: uuid
  wm_role :: workspace_role

record project_row =
  proj_id :: uuid
  proj_workspace_id :: uuid
  proj_name :: string
  proj_created_by :: uuid

record pm_row =
  pm_project_id :: uuid
  pm_user_id :: uuid
  pm_role :: project_role

record workspace_row =
  ws_id :: uuid
  ws_name :: string
  ws_created_by :: uuid

record task_row =
  task_id :: uuid
  task_project_id :: uuid
  task_title :: string
  task_status :: task_status
  task_created_by :: uuid

record assignment_row =
  ta_task_id :: uuid
  ta_user_id :: uuid

text \<open>
  The statements the modelled functions pass to \<^verbatim>\<open>query\<close> (db/connection.ts), with their
  parameters. A parameter that may be \<^verbatim>\<open>undefined\<close> in the caller is an option; the
  driver sends it as NULL.
\<close>

datatype sql =
    SELECT_user_by_id uuid
  | SELECT_user_by_email string
  | UPSERT_user_device uuid string
  | UPDATE_user_device_revoke uuid string
  | SELECT_user_device_is_revoked uuid string
  | SELECT_workspace_member_role "uuid option" uuid
  | SELECT_workspace_member_owner uuid uuid
  | SELECT_project_member_role uuid uuid
  | SELECT_project_member_lead uuid uuid
  | SELECT_project_workspace_id uuid
  | INSERT_workspace_member uuid uuid workspace_role
  | DELETE_workspace_member uuid uuid
  | INSERT_project_member uuid uuid project_role
  | DELETE_project_member uuid uuid
  | UPDATE_project_member_role project_role uuid uuid
  | SELECT_task uuid
  | SELECT_task_assignments uuid
  | DELETE_task uuid

text \<open>
  The relational store: the tables, the clock behind \<^verbatim>\<open>NOW()\<close>, and the statements
  executed so far, oldest first (\<^verbatim>\<open>query\<close> reports each one it runs).
\<close>

record db =
  users :: "user_row list"
  user_devices :: "device_row list"
  workspaces :: "workspace_row list"
  workspace_members :: "wm_row list"
  projects :: "project_row list"
  project_members :: "pm_row list"
  tasks :: "task_row list"
  task_assignments :: "assignment_row list"
  clock :: nat
  executed :: "sql list"

section \<open>Errors and the asynchronous functions\<close>

text \<open>
  A thrown value is \<^verbatim>\<open>new GraphQLError(msg)\<close> or \<^verbatim>\<open>new Error(msg)\<close>. An async function
  over the store takes the store and returns what it resolves to, or what it throws,
  with the store it leaves behind (there is no transaction: writes made before a throw
  stay).
\<close>

datatype error = GraphQLError string | Error string

type_synonym 'a async = "db \<Rightarrow> (error + 'a) \<times> db"

definition succeed :: "'a \<Rightarrow> 'a async" where
  "succeed x = (\<lambda>s. (Inr x, s))"

definition throw :: "error \<Rightarrow> 'a async" where
  "throw e = (\<lambda>s. (Inl e, s))"

definition await :: "'a async \<Rightarrow> ('a \<Rightarrow> 'b async) \<Rightarrow> 'b async" where
  "await m f = (\<lambda>s. case m s of (Inl e, s') \<Rightarrow> (Inl e, s') | (Inr x, s') \<Rightarrow> f x s')"

text \<open>
  \<^verbatim>\<open>query(text, params)\<close>: runs the statement; when it succeeds the statement is
  reported and its result returned, when it fails the error is thrown again.
\<close>

definition query :: "sql \<Rightarrow> 'a async \<Rightarrow> 'a async" where
  "query q run =
     (\<lambda>s. case run s of
        (Inl e, s') \<Rightarrow> (Inl e, s')
      | (Inr res, s') \<Rightarrow> (Inr res, s'\<lparr>executed := executed s' @ [q]\<rparr>))"

text \<open>A statement that only reads.\<close>

definition reading :: "(db \<Rightarrow> 'a) \<Rightarrow> 'a async" where
  "reading sel = (\<lambda>s. (Inr (sel s), s))"

text \<open>A statement that only writes, and cannot fail.\<close>

definition writing :: "(db \<Rightarrow> db) \<Rightarrow> unit async" where
  "writing upd = (\<lambda>s. (Inr (), upd s))"

section \<open>services/authorization.ts\<close>

fun workspace_role_name :: "workspace_role \<Rightarrow> string" where
  "workspace_role_name Owner = ''Owner''"
| "workspace_role_name Member = ''Member''"
| "workspace_role_name Viewer = ''Viewer''"

fun project_role_name :: "project_role \<Rightarrow> string" where
  "project_role_name Project_Lead = ''Project Lead''"
| "project_role_name Contributor = ''Contributor''"
| "project_role_name Project_Viewer = ''Project Viewer''"

text \<open>\<^verbatim>\<open>const roleHierarchy = { Owner: 3, Member: 2, Viewer: 1 }\<close>\<close>

fun workspace_roleHierarchy :: "workspace_role \<Rightarrow> nat" where
  "workspace_roleHierarchy Owner = 3"
| "workspace_roleHierarchy Member = 2"
| "workspace_roleHierarchy Viewer = 1"

text \<open>\<^verbatim>\<open>const roleHierarchy = { 'Project Lead': 3, Contributor: 2, 'Project Viewer': 1 }\<close>\<close>

fun project_roleHierarchy :: "project_role \<Rightarrow> nat" where
  "project_roleHierarchy Project_Lead = 3"
| "project_roleHierarchy Contributor = 2"
| "project_roleHierarchy Project_Viewer = 1"

record 'r access =
  hasAccess :: bool
  role :: "'r option"

text \<open>
  \<^verbatim>\<open>SELECT role FROM workspace_members WHERE workspace_id = $1 AND user_id = $2\<close>;
  a NULL parameter equals no stored value.
\<close>

definition workspace_member_roles :: "uuid option \<Rightarrow> uuid \<Rightarrow> db \<Rightarrow> workspace_role list" where
  "workspace_member_roles workspaceId userId s =
     map wm_role [r \<leftarrow> workspace_members s. Some (wm_workspace_id r) = workspaceId \<and> wm_user_id r = userId]"

definition checkWorkspaceAccess ::
  "uuid \<Rightarrow> uuid option \<Rightarrow> workspace_role \<Rightarrow> workspace_role access async" where
  "checkWorkspaceAccess userId workspaceId minimumRole =
     await (query (SELECT_workspace_member_role workspaceId userId)
              (reading (workspace_member_roles workspaceId userId)))
       (\<lambda>rows. case rows of
            [] \<Rightarrow> succeed \<lparr>hasAccess = False, role = None\<rparr>
          | r # _ \<Rightarrow>
              (let minimumLevel = workspace_roleHierarchy minimumRole;
                   userLevel = workspace_roleHierarchy r
               in succeed \<lparr>hasAccess = (userLevel \<ge> minimumLevel), role = Some r\<rparr>))"

text \<open>\<^verbatim>\<open>SELECT role FROM project_members WHERE project_id = $1 AND user_id = $2\<close>\<close>

definition project_member_roles :: "uuid \<Rightarrow> uuid \<Rightarrow> db \<Rightarrow> project_role list" where
  "project_member_roles projectId userId s =
     map pm_role [r \<leftarrow> project_members s. pm_project_id r = projectId \<and> pm_user_id r = userId]"

definition checkProjectAccess ::
  "uuid \<Rightarrow> uuid \<Rightarrow> project_role \<Rightarrow> project_role access async" where
  "checkProjectAccess userId projectId minimumRole =
     await (query (SELECT_project_member_role projectId userId)
              (reading (project_member_roles projectId userId)))
       (\<lambda>rows. case rows of
            [] \<Rightarrow> succeed \<lparr>hasAccess = False, role = None\<rparr>
          | r # _ \<Rightarrow>
              (let minimumLevel = project_roleHierarchy minimumRole;
                   userLevel = project_roleHierarchy r
               in succeed \<lparr>hasAccess = (userLevel \<ge> minimumLevel), role = Some r\<rparr>))"

text \<open>
  \<^verbatim>\<open>SELECT role FROM workspace_members
   WHERE workspace_id = $1 AND user_id = $2 AND role = 'Owner'\<close>
\<close>

definition workspace_owner_rows :: "uuid \<Rightarrow> uuid \<Rightarrow> db \<Rightarrow> workspace_role list" where
  "workspace_owner_rows workspaceId userId s =
     map wm_role [r \<leftarrow> workspace_members s.
        wm_workspace_id r = workspaceId \<and> wm_user_id r = userId \<and> wm_role r = Owner]"

definition checkWorkspaceOwnership :: "uuid \<Rightarrow> uuid \<Rightarrow> bool async" where
  "checkWorkspaceOwnership userId workspaceId =
     await (query (SELECT_workspace_member_owner workspaceId userId)
              (reading (workspace_owner_rows workspaceId userId)))
       (\<lambda>rows. succeed (length rows > 0))"

text \<open>
  \<^verbatim>\<open>SELECT role FROM project_members
   WHERE project_id = $1 AND user_id = $2 AND role = 'Project Lead'\<close>
\<close>

definition project_lead_rows :: "uuid \<Rightarrow> uuid \<Rightarrow> db \<Rightarrow> project_role list" where
  "project_lead_rows projectId userId s =
     map pm_role [r \<leftarrow> project_members s.
        pm_project_id r = projectId \<and> pm_user_id r = userId \<and> pm_role r = Project_Lead]"

definition checkProjectLeadAccess :: "uuid \<Rightarrow> uuid \<Rightarrow> bool async" where
  "checkProjectLeadAccess userId projectId =
     await (query (SELECT_project_member_lead projectId userId)
              (reading (project_lead_rows projectId userId)))
       (\<lambda>rows. succeed (length rows > 0))"

definition requireWorkspaceAccess :: "uuid \<Rightarrow> uuid option \<Rightarrow> workspace_role \<Rightarrow> unit async" where
  "requireWorkspaceAccess userId workspaceId minimumRole =
     await (checkWorkspaceAccess userId workspaceId minimumRole)
       (\<lambda>res. if \<not> hasAccess res
          then throw (Error (''Insufficient permissions: Requires '' @
                              workspace_role_name minimumRole @ '' role or higher''))
          else succeed ())"

definition requireProjectAccess :: "uuid \<Rightarrow> uuid \<Rightarrow> project_role \<Rightarrow> unit async" where
  "requireProjectAccess userId projectId minimumRole =
     await (checkProjectAccess userId projectId minimumRole)
       (\<lambda>res. if \<not> hasAccess res
          then throw (Error (''Insufficient permissions: Requires '' @
                              project_role_name minimumRole @ '' role or higher''))
          else succeed ())"

text \<open>The schema's \<^verbatim>\<open>CONSTRAINT unique_member_per_workspace UNIQUE(workspace_id, user_id)\<close>.\<close>

definition unique_member_per_workspace :: "db \<Rightarrow> bool" where
  "unique_member_per_workspace s =
     distinct (map (\<lambda>r. (wm_workspace_id r, wm_user_id r)) (workspace_members s))"

section \<open>config/index.ts\<close>

text \<open>
  \<^verbatim>\<open>process.env\<close> maps a variable's name to its value when it is set.
  \<^verbatim>\<open>process.env.X || 'dflt'\<close> is the default when the variable is unset or empty.
\<close>

type_synonym env = "string \<Rightarrow> string option"

definition or_default :: "string option \<Rightarrow> string \<Rightarrow> string" where
  "or_default v dflt = (case v of None \<Rightarrow> dflt | Some str \<Rightarrow> if str = [] then dflt else str)"

record jwt_config =
  secret :: string
  refreshSecret :: string
  expiresIn :: string
  refreshExpiresIn :: string

definition config_jwt :: "env \<Rightarrow> jwt_config" where
  "config_jwt process_env =
     \<lparr>secret = or_default (process_env ''JWT_SECRET'') ''change-this-in-production'',
      refreshSecret = or_default (process_env ''JWT_REFRESH_SECRET'') ''change-this-in-production'',
      expiresIn = or_default (process_env ''JWT_EXPIRES_IN'') ''15m'',
      refreshExpiresIn = or_default (process_env ''JWT_REFRESH_EXPIRES_IN'') ''7d''\<rparr>"

section \<open>utils/auth.ts\<close>

record JWTPayload =
  payload_userId :: uuid
  payload_email :: string
  payload_globalStatus :: global_status

text \<open>
  The \<^verbatim>\<open>jsonwebtoken\<close> library is not part of the repository. It is taken symbolically:
  a well-formed token is its payload, the key it was signed under and its expiry time;
  any other string is \<open>Opaque\<close>. \<^verbatim>\<open>jwt.verify\<close> accepts a well-formed token exactly when
  the key is the signing key and the expiry lies in the future, and throws otherwise.
  The library's reading of an \<^verbatim>\<open>expiresIn\<close> string as a number of seconds is the
  parameter \<open>span\<close>; \<open>now\<close> is the server's clock in seconds.
\<close>

datatype token = Jwt JWTPayload string nat | Opaque string

definition jwt_sign :: "(string \<Rightarrow> nat) \<Rightarrow> nat \<Rightarrow> JWTPayload \<Rightarrow> string \<Rightarrow> string \<Rightarrow> token" where
  "jwt_sign span now payload key expires = Jwt payload key (now + span expires)"

definition jwt_verify :: "nat \<Rightarrow> token \<Rightarrow> string \<Rightarrow> error + JWTPayload" where
  "jwt_verify now tok key =
     (case tok of
        Opaque _ \<Rightarrow> Inl (Error ''jwt malformed'')
      | Jwt payload k exp_at \<Rightarrow>
          if k \<noteq> key then Inl (Error ''invalid signature'')
          else if exp_at \<le> now then Inl (Error ''jwt expired'')
          else Inr payload)"

definition generateAccessToken :: "jwt_config \<Rightarrow> (string \<Rightarrow> nat) \<Rightarrow> nat \<Rightarrow> JWTPayload \<Rightarrow> token" where
  "generateAccessToken cfg span now payload = jwt_sign span now payload (secret cfg) (expiresIn cfg)"

definition generateRefreshToken :: "jwt_config \<Rightarrow> (string \<Rightarrow> nat) \<Rightarrow> nat \<Rightarrow> JWTPayload \<Rightarrow> token" where
  "generateRefreshToken cfg span now payload =
     jwt_sign span now payload (refreshSecret cfg) (refreshExpiresIn cfg)"

definition verifyAccessToken :: "jwt_config \<Rightarrow> nat \<Rightarrow> token \<Rightarrow> error + JWTPayload" where
  "verifyAccessToken cfg now tok = jwt_verify now tok (secret cfg)"

definition verifyRefreshToken :: "jwt_config \<Rightarrow> nat \<Rightarrow> token \<Rightarrow> error + JWTPayload" where
  "verifyRefreshToken cfg now tok = jwt_verify now tok (refreshSecret cfg)"

text \<open>
  \<^verbatim>\<open>INSERT INTO user_devices (user_id, device_id, ip_address, user_agent) VALUES ($1, $2, $3, $4)
   ON CONFLICT (user_id, device_id) DO UPDATE
   SET login_time = NOW(), is_revoked = FALSE, revoked_at = NULL, ip_address = $3, user_agent = $4\<close>;
  the row's user must exist (\<^verbatim>\<open>REFERENCES users(id)\<close>).
\<close>

definition device_matches :: "uuid \<Rightarrow> string \<Rightarrow> device_row \<Rightarrow> bool" where
  "device_matches userId deviceId r = (dev_user_id r = userId \<and> dev_device_id r = deviceId)"

definition upsert_user_device ::
  "uuid \<Rightarrow> string \<Rightarrow> string option \<Rightarrow> string option \<Rightarrow> unit async" where
  "upsert_user_device userId deviceId ipAddress userAgent s =
     (let fresh = \<lparr>dev_user_id = userId, dev_device_id = deviceId, dev_ip_address = ipAddress,
                    dev_user_agent = userAgent, dev_login_time = clock s, dev_is_revoked = False,
                    dev_revoked_at = None\<rparr>
      in if filter (device_matches userId deviceId) (user_devices s) \<noteq> []
         then (Inr (), s\<lparr>user_devices :=
                  map (\<lambda>r. if device_matches userId deviceId r then fresh else r) (user_devices s)\<rparr>)
         else if [u \<leftarrow> users s. user_id u = userId] = []
         then (Inl (Error ''violates foreign key constraint''), s)
         else (Inr (), s\<lparr>user_devices := user_devices s @ [fresh]\<rparr>))"

definition saveDevice :: "uuid \<Rightarrow> string \<Rightarrow> string option \<Rightarrow> string option \<Rightarrow> unit async" where
  "saveDevice userId deviceId ipAddress userAgent =
     query (UPSERT_user_device userId deviceId)
       (upsert_user_device userId deviceId ipAddress userAgent)"

text \<open>
  \<^verbatim>\<open>UPDATE user_devices SET is_revoked = TRUE, revoked_at = NOW()
   WHERE user_id = $1 AND device_id = $2\<close>
\<close>

definition revokeDevice :: "uuid \<Rightarrow> string \<Rightarrow> unit async" where
  "revokeDevice userId deviceId =
     query (UPDATE_user_device_revoke userId deviceId)
       (writing (\<lambda>s. s\<lparr>user_devices :=
          map (\<lambda>r. if device_matches userId deviceId r
                    then r\<lparr>dev_is_revoked := True, dev_revoked_at := Some (clock s)\<rparr> else r)
              (user_devices s)\<rparr>))"

text \<open>
  JavaScript's \<^verbatim>\<open>v || d\<close> where \<^verbatim>\<open>v\<close> is a boolean or \<^verbatim>\<open>undefined\<close>: \<^verbatim>\<open>v\<close> when it is
  \<^verbatim>\<open>true\<close>, otherwise \<^verbatim>\<open>d\<close>.
\<close>

definition js_or :: "bool option \<Rightarrow> bool \<Rightarrow> bool" where
  "js_or v d = (case v of Some True \<Rightarrow> True | _ \<Rightarrow> d)"

text \<open>
  \<^verbatim>\<open>SELECT is_revoked FROM user_devices WHERE user_id = $1 AND device_id = $2\<close>, then
  \<^verbatim>\<open>return result.rows[0]?.is_revoked || true\<close>.
\<close>

definition isDeviceRevoked :: "uuid \<Rightarrow> string \<Rightarrow> bool async" where
  "isDeviceRevoked userId deviceId =
     await (query (SELECT_user_device_is_revoked userId deviceId)
              (reading (\<lambda>s. map dev_is_revoked (filter (device_matches userId deviceId) (user_devices s)))))
       (\<lambda>rows. succeed (js_or (case rows of [] \<Rightarrow> None | b # _ \<Rightarrow> Some b) True))"

text \<open>\<^verbatim>\<open>result.rows[0]\<close>: the first row, or \<^verbatim>\<open>undefined\<close>.\<close>

definition first_row :: "'a list \<Rightarrow> 'a option" where
  "first_row rows = (case rows of [] \<Rightarrow> None | r # _ \<Rightarrow> Some r)"

definition getUserByEmail :: "string \<Rightarrow> user_row option async" where
  "getUserByEmail email =
     await (query (SELECT_user_by_email email) (reading (\<lambda>s. [u \<leftarrow> users s. user_email u = email])))
       (\<lambda>rows. succeed (first_row rows))"

definition getUserById :: "uuid \<Rightarrow> user_row option async" where
  "getUserById ident =
     await (query (SELECT_user_by_id ident) (reading (\<lambda>s. [u \<leftarrow> users s. user_id u = ident])))
       (\<lambda>rows. succeed (first_row rows))"

section \<open>HTTP requests and responses\<close>

text \<open>
  The parts of an Express request the modelled handlers read. An \<^verbatim>\<open>Authorization\<close>
  header that starts with \<^verbatim>\<open>'Bearer '\<close> is \<open>Bearer\<close> of the rest of the header
  (\<^verbatim>\<open>authHeader.substring(7)\<close>); any other header value is \<open>Not_Bearer\<close>.
\<close>

datatype authorization = Bearer token | Not_Bearer string

record request =
  req_authorization :: "authorization option"
  req_cookie_refreshToken :: "token option"
  req_x_refresh_token :: "token option"
  req_x_device_id :: "string option"
  req_ip :: "string option"
  req_user_agent :: "string option"
  req_body_email :: string
  req_body_password :: string

record user_view =
  view_id :: uuid
  view_email :: string
  view_full_name :: string
  view_global_status :: global_status

datatype body =
    Error_body string
  | Message_body string
  | Login_body token token user_view

datatype cookie_change = Cookie_untouched | Cookie_set token | Cookie_cleared

record response =
  status :: nat
  body :: body
  refreshToken_cookie :: cookie_change

definition json_error :: "nat \<Rightarrow> string \<Rightarrow> response" where
  "json_error code msg = \<lparr>status = code, body = Error_body msg, refreshToken_cookie = Cookie_untouched\<rparr>"

section \<open>middleware/auth.ts\<close>

text \<open>
  \<open>authenticate\<close> either sends a response (\<open>Inl\<close>) or calls \<^verbatim>\<open>next()\<close> with
  \<^verbatim>\<open>req.userId\<close> and \<^verbatim>\<open>req.user\<close> set (\<open>Inr\<close>). Everything thrown inside its
  \<^verbatim>\<open>try\<close>, also the \<^verbatim>\<open>TypeError\<close> of reading \<^verbatim>\<open>global_status\<close> of an
  \<^verbatim>\<open>undefined\<close> user, ends in the 401 of its \<^verbatim>\<open>catch\<close>. Here and in the routes the
  calls of \<^verbatim>\<open>logger\<close> write to the audit sink only and are left out.
\<close>

definition authenticate ::
  "jwt_config \<Rightarrow> nat \<Rightarrow> request \<Rightarrow> db \<Rightarrow> (response + uuid \<times> user_row) \<times> db" where
  "authenticate cfg now req s =
     (case req_authorization req of
        None \<Rightarrow> (Inl (json_error 401 ''Unauthorized: No token provided''), s)
      | Some (Not_Bearer _) \<Rightarrow> (Inl (json_error 401 ''Unauthorized: No token provided''), s)
      | Some (Bearer tok) \<Rightarrow>
          (case verifyAccessToken cfg now tok of
             Inl _ \<Rightarrow> (Inl (json_error 401 ''Unauthorized: Invalid token''), s)
           | Inr payload \<Rightarrow>
               (case getUserById (payload_userId payload) s of
                  (Inl _, s') \<Rightarrow> (Inl (json_error 401 ''Unauthorized: Invalid token''), s')
                | (Inr None, s') \<Rightarrow> (Inl (json_error 401 ''Unauthorized: Invalid token''), s')
                | (Inr (Some user), s') \<Rightarrow>
                    if user_global_status user = BANNED
                    then (Inl (json_error 403 ''Access denied: Account is banned''), s')
                    else (Inr (payload_userId payload, user), s'))))"

section \<open>index.ts: the GraphQL context\<close>

record Context =
  ctx_userId :: "uuid option"
  ctx_user :: "user_row option"
  ctx_ipAddress :: "string option"
  ctx_userAgent :: "string option"

text \<open>
  \<open>getContext\<close>: a failed verification is swallowed by the empty \<^verbatim>\<open>catch\<close> and leaves
  \<^verbatim>\<open>userId\<close> and \<^verbatim>\<open>user\<close> undefined.
\<close>

definition getContext :: "jwt_config \<Rightarrow> nat \<Rightarrow> request \<Rightarrow> db \<Rightarrow> Context \<times> db" where
  "getContext cfg now req s =
     (let anonymous = \<lparr>ctx_userId = None, ctx_user = None,
                        ctx_ipAddress = req_ip req, ctx_userAgent = req_user_agent req\<rparr>
      in case req_authorization req of
           Some (Bearer tok) \<Rightarrow>
             (case jwt_verify now tok (secret cfg) of
                Inl _ \<Rightarrow> (anonymous, s)
              | Inr payload \<Rightarrow>
                  (case getUserById (payload_userId payload) s of
                     (Inl _, s') \<Rightarrow> (anonymous\<lparr>ctx_userId := Some (payload_userId payload)\<rparr>, s')
                   | (Inr user, s') \<Rightarrow>
                       (anonymous\<lparr>ctx_userId := Some (payload_userId payload), ctx_user := user\<rparr>, s')))
         | _ \<Rightarrow> (anonymous, s))"

section \<open>routes/auth.ts\<close>

text \<open>
  \<open>login\<close>. The password check of \<^verbatim>\<open>bcrypt\<close> is the parameter \<open>comparePassword\<close>; the
  identifier that \<^verbatim>\<open>generateDeviceId\<close> draws (\<^verbatim>\<open>randomUUID()\<close>) is the parameter
  \<open>deviceId\<close>. A throw inside the \<^verbatim>\<open>try\<close> is answered with 500.
\<close>

definition login ::
  "jwt_config \<Rightarrow> (string \<Rightarrow> nat) \<Rightarrow> nat \<Rightarrow> (string \<Rightarrow> string \<Rightarrow> bool) \<Rightarrow> string \<Rightarrow> request
     \<Rightarrow> db \<Rightarrow> response \<times> db" where
  "login cfg span now comparePassword deviceId req s =
     (case getUserByEmail (req_body_email req) s of
        (Inl _, s1) \<Rightarrow> (json_error 500 ''Internal server error'', s1)
      | (Inr None, s1) \<Rightarrow> (json_error 401 ''Invalid credentials'', s1)
      | (Inr (Some user), s1) \<Rightarrow>
          if user_global_status user = BANNED then (json_error 403 ''Account is banned'', s1)
          else if \<not> comparePassword (req_body_password req) (user_password_hash user)
          then (json_error 401 ''Invalid credentials'', s1)
          else
            (case saveDevice (user_id user) deviceId (req_ip req) (req_user_agent req) s1 of
               (Inl _, s2) \<Rightarrow> (json_error 500 ''Internal server error'', s2)
             | (Inr _, s2) \<Rightarrow>
                 (let payload = \<lparr>payload_userId = user_id user, payload_email = user_email user,
                                  payload_globalStatus = user_global_status user\<rparr>;
                      accessToken = generateAccessToken cfg span now payload;
                      refreshToken = generateRefreshToken cfg span now payload
                  in (\<lparr>status = 200,
                       body = Login_body accessToken refreshToken
                                \<lparr>view_id = user_id user, view_email = user_email user,
                                 view_full_name = user_full_name user,
                                 view_global_status = user_global_status user\<rparr>,
                       refreshToken_cookie = Cookie_set refreshToken\<rparr>, s2))))"

text \<open>
  \<^verbatim>\<open>req.cookies.refreshToken || req.headers['x-refresh-token']\<close>, and whether the result
  is truthy: a cookie or header that is present and not the empty string.
\<close>

definition presented :: "token option \<Rightarrow> bool" where
  "presented v = (case v of None \<Rightarrow> False | Some (Opaque str) \<Rightarrow> str \<noteq> [] | Some _ \<Rightarrow> True)"

definition logout :: "jwt_config \<Rightarrow> nat \<Rightarrow> request \<Rightarrow> db \<Rightarrow> response \<times> db" where
  "logout cfg now req s =
     (case authenticate cfg now req s of
        (Inl rejected, s1) \<Rightarrow> (rejected, s1)
      | (Inr (userId, user), s1) \<Rightarrow>
          (let refreshToken = (if presented (req_cookie_refreshToken req)
                               then req_cookie_refreshToken req else req_x_refresh_token req);
               deviceId = or_default (req_x_device_id req) ''unknown''
           in case (if presented refreshToken then revokeDevice userId deviceId s1 else (Inr (), s1)) of
                (Inl _, s2) \<Rightarrow> (json_error 500 ''Internal server error'', s2)
              | (Inr _, s2) \<Rightarrow>
                  (\<lparr>status = 200, body = Message_body ''Logged out successfully'',
                    refreshToken_cookie = Cookie_cleared\<rparr>, s2)))"

section \<open>graphql/resolvers.ts\<close>

text \<open>
  Every resolver below starts with
  \<^verbatim>\<open>if (!context.userId) throw new GraphQLError('Unauthorized')\<close>; \<open>authenticated\<close> is that
  line, resolving to the caller's id. Calls of \<^verbatim>\<open>logger\<close> go to the audit sink only and
  are left out.
\<close>

definition authenticated :: "Context \<Rightarrow> uuid async" where
  "authenticated ctx =
     (case ctx_userId ctx of
        None \<Rightarrow> throw (GraphQLError ''Unauthorized'')
      | Some userId \<Rightarrow> if userId = [] then throw (GraphQLError ''Unauthorized'') else succeed userId)"

definition me :: "Context \<Rightarrow> user_row option async" where
  "me ctx = await (authenticated ctx) (\<lambda>userId. getUserById userId)"

text \<open>\<^verbatim>\<open>SELECT * FROM tasks WHERE id = $1\<close>\<close>

definition select_task :: "uuid \<Rightarrow> task_row list async" where
  "select_task ident = query (SELECT_task ident) (reading (\<lambda>s. [t \<leftarrow> tasks s. task_id t = ident]))"

text \<open>
  \<^verbatim>\<open>SELECT ta.*, u.email, u.full_name FROM task_assignments ta
   JOIN users u ON ta.user_id = u.id WHERE ta.task_id = $1\<close>
\<close>

definition select_task_assignments :: "uuid \<Rightarrow> user_view list async" where
  "select_task_assignments ident =
     query (SELECT_task_assignments ident)
       (reading (\<lambda>s. concat (map (\<lambda>a. map (\<lambda>u. \<lparr>view_id = ta_user_id a, view_email = user_email u,
                                               view_full_name = user_full_name u,
                                               view_global_status = user_global_status u\<rparr>)
                                          [u \<leftarrow> users s. user_id u = ta_user_id a])
                              [a \<leftarrow> task_assignments s. ta_task_id a = ident])))"

definition getTask :: "uuid \<Rightarrow> Context \<Rightarrow> (task_row \<times> user_view list) async" where
  "getTask ident ctx =
     await (authenticated ctx) (\<lambda>userId.
     await (select_task ident) (\<lambda>rows.
       case rows of
         [] \<Rightarrow> throw (GraphQLError ''Task not found'')
       | task # _ \<Rightarrow>
           await (checkProjectAccess userId (task_project_id task) Project_Viewer) (\<lambda>res.
             if \<not> hasAccess res then throw (GraphQLError ''Forbidden'')
             else await (select_task_assignments ident) (\<lambda>assigned_to.
                    succeed (task, assigned_to)))))"

text \<open>
  The guard of \<open>updateTask\<close>: its statements up to \<^verbatim>\<open>requireProjectAccess\<close>, which come
  before its first write. It resolves to \<^verbatim>\<open>existingTask\<close>.
\<close>

definition updateTask_guard :: "uuid \<Rightarrow> Context \<Rightarrow> task_row async" where
  "updateTask_guard ident ctx =
     await (authenticated ctx) (\<lambda>userId.
     await (select_task ident) (\<lambda>rows.
       case rows of
         [] \<Rightarrow> throw (GraphQLError ''Task not found'')
       | existingTask # _ \<Rightarrow>
           await (requireProjectAccess userId (task_project_id existingTask) Contributor) (\<lambda>_.
             succeed existingTask)))"

text \<open>
  \<^verbatim>\<open>DELETE FROM tasks WHERE id = $1\<close>; the task's assignments go with it
  (\<^verbatim>\<open>ON DELETE CASCADE\<close>).
\<close>

definition deleteTask :: "uuid \<Rightarrow> Context \<Rightarrow> bool async" where
  "deleteTask ident ctx =
     await (authenticated ctx) (\<lambda>userId.
     await (select_task ident) (\<lambda>rows.
       case rows of
         [] \<Rightarrow> throw (GraphQLError ''Task not found'')
       | existingTask # _ \<Rightarrow>
           await (requireProjectAccess userId (task_project_id existingTask) Contributor) (\<lambda>_.
           await (query (DELETE_task ident)
                    (writing (\<lambda>s. s\<lparr>tasks := [t \<leftarrow> tasks s. task_id t \<noteq> ident],
                                     task_assignments :=
                                       [a \<leftarrow> task_assignments s. ta_task_id a \<noteq> ident]\<rparr>))) (\<lambda>_.
             succeed True))))"

text \<open>
  \<^verbatim>\<open>INSERT INTO workspace_members (workspace_id, user_id, role) VALUES ($1, $2, 'Member')
   ON CONFLICT DO NOTHING\<close>: nothing happens when the pair has a row; otherwise the
  workspace and the user must exist (the foreign keys).
\<close>

definition insert_workspace_member :: "uuid \<Rightarrow> uuid \<Rightarrow> workspace_role \<Rightarrow> unit async" where
  "insert_workspace_member workspaceId userId r s =
     (if [m \<leftarrow> workspace_members s. wm_workspace_id m = workspaceId \<and> wm_user_id m = userId] \<noteq> []
      then (Inr (), s)
      else if [w \<leftarrow> workspaces s. ws_id w = workspaceId] = [] \<or> [u \<leftarrow> users s. user_id u = userId] = []
      then (Inl (Error ''violates foreign key constraint''), s)
      else (Inr (), s\<lparr>workspace_members := workspace_members s @
              [\<lparr>wm_workspace_id = workspaceId, wm_user_id = userId, wm_role = r\<rparr>]\<rparr>))"

definition addWorkspaceMember :: "uuid \<Rightarrow> uuid \<Rightarrow> Context \<Rightarrow> bool async" where
  "addWorkspaceMember workspaceId userId ctx =
     await (authenticated ctx) (\<lambda>caller.
     await (checkWorkspaceOwnership caller workspaceId) (\<lambda>isOwner.
       if \<not> isOwner then throw (GraphQLError ''Forbidden: Owner access required'')
       else await (query (INSERT_workspace_member workspaceId userId Member)
                     (insert_workspace_member workspaceId userId Member)) (\<lambda>_.
              succeed True)))"

text \<open>
  \<^verbatim>\<open>DELETE FROM workspace_members WHERE workspace_id = $1 AND user_id = $2\<close>; no other
  table refers to a row of \<^verbatim>\<open>workspace_members\<close>, so nothing else is deleted.
\<close>

definition removeWorkspaceMember :: "uuid \<Rightarrow> uuid \<Rightarrow> Context \<Rightarrow> bool async" where
  "removeWorkspaceMember workspaceId userId ctx =
     await (authenticated ctx) (\<lambda>caller.
     await (checkWorkspaceOwnership caller workspaceId) (\<lambda>isOwner.
       if \<not> isOwner then throw (GraphQLError ''Forbidden: Owner access required'')
       else await (query (DELETE_workspace_member workspaceId userId)
                     (writing (\<lambda>s. s\<lparr>workspace_members :=
                        [m \<leftarrow> workspace_members s.
                           \<not> (wm_workspace_id m = workspaceId \<and> wm_user_id m = userId)]\<rparr>))) (\<lambda>_.
              succeed True)))"

text \<open>
  \<^verbatim>\<open>SELECT workspace_id FROM projects WHERE id = $1\<close>, then
  \<^verbatim>\<open>projectResult.rows[0]?.workspace_id\<close>.
\<close>

definition select_project_workspace_id :: "uuid \<Rightarrow> uuid option async" where
  "select_project_workspace_id projectId =
     await (query (SELECT_project_workspace_id projectId)
              (reading (\<lambda>s. map proj_workspace_id [p \<leftarrow> projects s. proj_id p = projectId])))
       (\<lambda>rows. succeed (first_row rows))"

text \<open>
  \<^verbatim>\<open>INSERT INTO project_members (project_id, user_id, role) VALUES ($1, $2, 'Contributor')
   ON CONFLICT DO NOTHING\<close>
\<close>

definition insert_project_member :: "uuid \<Rightarrow> uuid \<Rightarrow> project_role \<Rightarrow> unit async" where
  "insert_project_member projectId userId r s =
     (if [m \<leftarrow> project_members s. pm_project_id m = projectId \<and> pm_user_id m = userId] \<noteq> []
      then (Inr (), s)
      else if [p \<leftarrow> projects s. proj_id p = projectId] = [] \<or> [u \<leftarrow> users s. user_id u = userId] = []
      then (Inl (Error ''violates foreign key constraint''), s)
      else (Inr (), s\<lparr>project_members := project_members s @
              [\<lparr>pm_project_id = projectId, pm_user_id = userId, pm_role = r\<rparr>]\<rparr>))"

definition addProjectMember :: "uuid \<Rightarrow> uuid \<Rightarrow> Context \<Rightarrow> bool async" where
  "addProjectMember projectId userId ctx =
     await (authenticated ctx) (\<lambda>caller.
     await (checkProjectLeadAccess caller projectId) (\<lambda>isLead.
     await (if \<not> isLead
            then await (select_project_workspace_id projectId) (\<lambda>workspaceId.
                   case workspaceId of
                     None \<Rightarrow> throw (GraphQLError ''Project not found'')
                   | Some w \<Rightarrow>
                       if w = [] then throw (GraphQLError ''Project not found'')
                       else await (checkWorkspaceOwnership caller w) (\<lambda>isWorkspaceOwner.
                              if \<not> isWorkspaceOwner
                              then throw (GraphQLError
                                     ''Forbidden: Project Lead or Workspace Owner access required'')
                              else succeed ()))
            else succeed ()) (\<lambda>_.
     await (select_project_workspace_id projectId) (\<lambda>workspaceId.
     await (checkWorkspaceAccess userId workspaceId Viewer) (\<lambda>res.
       if \<not> hasAccess res then throw (GraphQLError ''User must be a workspace member first'')
       else await (query (INSERT_project_member projectId userId Contributor)
                     (insert_project_member projectId userId Contributor)) (\<lambda>_.
              succeed True))))))"

text \<open>\<^verbatim>\<open>DELETE FROM project_members WHERE project_id = $1 AND user_id = $2\<close>\<close>

definition removeProjectMember :: "uuid \<Rightarrow> uuid \<Rightarrow> Context \<Rightarrow> bool async" where
  "removeProjectMember projectId userId ctx =
     await (authenticated ctx) (\<lambda>caller.
     await (checkProjectLeadAccess caller projectId) (\<lambda>isLead.
     await (if \<not> isLead
            then await (select_project_workspace_id projectId) (\<lambda>workspaceId.
                   case workspaceId of
                     None \<Rightarrow> throw (GraphQLError ''Project not found'')
                   | Some w \<Rightarrow>
                       if w = [] then throw (GraphQLError ''Project not found'')
                       else await (checkWorkspaceOwnership caller w) (\<lambda>isWorkspaceOwner.
                              if \<not> isWorkspaceOwner
                              then throw (GraphQLError
                                     ''Forbidden: Project Lead or Workspace Owner access required'')
                              else succeed ()))
            else succeed ()) (\<lambda>_.
     await (query (DELETE_project_member projectId userId)
              (writing (\<lambda>s. s\<lparr>project_members :=
                 [m \<leftarrow> project_members s. \<not> (pm_project_id m = projectId \<and> pm_user_id m = userId)]\<rparr>)))
       (\<lambda>_. succeed True))))"

text \<open>
  \<^verbatim>\<open>UPDATE project_members SET role = $1 WHERE project_id = $2 AND user_id = $3\<close>.
  The fallback check is \<^verbatim>\<open>checkWorkspaceOwnership(context.userId, projectId)\<close>, as the
  source has it.
\<close>

definition updateProjectMemberRole :: "uuid \<Rightarrow> uuid \<Rightarrow> project_role \<Rightarrow> Context \<Rightarrow> bool async" where
  "updateProjectMemberRole projectId userId r ctx =
     await (authenticated ctx) (\<lambda>caller.
     await (checkProjectLeadAccess caller projectId) (\<lambda>isLead.
     await (if \<not> isLead
            then await (checkWorkspaceOwnership caller projectId) (\<lambda>isWorkspaceOwner.
                   if \<not> isWorkspaceOwner
                   then throw (GraphQLError
                          ''Forbidden: Project Lead or Workspace Owner access required'')
                   else succeed ())
            else succeed ()) (\<lambda>_.
     await (query (UPDATE_project_member_role r projectId userId)
              (writing (\<lambda>s. s\<lparr>project_members :=
                 map (\<lambda>m. if pm_project_id m = projectId \<and> pm_user_id m = userId
                           then m\<lparr>pm_role := r\<rparr> else m) (project_members s)\<rparr>)))
       (\<lambda>_. succeed True))))"

text \<open>
  The \<^verbatim>\<open>subscribe\<close> function of \<^verbatim>\<open>taskStatusUpdated\<close>; it resolves to the name of the
  channel it attaches to.
\<close>

definition taskStatusUpdated_subscribe :: "uuid \<Rightarrow> Context \<Rightarrow> string async" where
  "taskStatusUpdated_subscribe workspaceId ctx =
     await (authenticated ctx) (\<lambda>userId.
     await (requireWorkspaceAccess userId (Some workspaceId) Viewer) (\<lambda>_.
       succeed (''TASK_STATUS_UPDATED_'' @ workspaceId)))"

section \<open>Schema constraints and membership, as the claims speak of them\<close>

text \<open>\<^verbatim>\<open>projects.id\<close> and \<^verbatim>\<open>tasks.id\<close> are primary keys.\<close>

definition projects_pkey :: "db \<Rightarrow> bool" where
  "projects_pkey s = distinct (map proj_id (projects s))"

definition tasks_pkey :: "db \<Rightarrow> bool" where
  "tasks_pkey s = distinct (map task_id (tasks s))"

text \<open>The user holds Project Lead on the project.\<close>

definition holds_project_lead :: "db \<Rightarrow> uuid \<Rightarrow> uuid \<Rightarrow> bool" where
  "holds_project_lead s u p =
     (\<exists>m\<in>set (project_members s). pm_project_id m = p \<and> pm_user_id m = u \<and> pm_role m = Project_Lead)"

text \<open>The user holds Owner on the workspace.\<close>

definition holds_workspace_owner :: "db \<Rightarrow> uuid \<Rightarrow> uuid \<Rightarrow> bool" where
  "holds_workspace_owner s u w =
     (\<exists>m\<in>set (workspace_members s). wm_workspace_id m = w \<and> wm_user_id m = u \<and> wm_role m = Owner)"

text \<open>The user holds Owner on the workspace the project belongs to.\<close>

definition owns_parent_workspace :: "db \<Rightarrow> uuid \<Rightarrow> uuid \<Rightarrow> bool" where
  "owns_parent_workspace s u p =
     (\<exists>P\<in>set (projects s). proj_id P = p \<and> holds_workspace_owner s u (proj_workspace_id P))"

text \<open>The user has a membership row, of any role, in the workspace.\<close>

definition workspace_member :: "db \<Rightarrow> uuid \<Rightarrow> uuid \<Rightarrow> bool" where
  "workspace_member s u w =
     (\<exists>m\<in>set (workspace_members s). wm_workspace_id m = w \<and> wm_user_id m = u)"

text \<open>The user has a membership row, of any role, in the project.\<close>

definition project_member :: "db \<Rightarrow> uuid \<Rightarrow> uuid \<Rightarrow> bool" where
  "project_member s u p =
     (\<exists>m\<in>set (project_members s). pm_project_id m = p \<and> pm_user_id m = u)"

text \<open>The statements executed between two states of the store.\<close>

definition issued :: "db \<Rightarrow> db \<Rightarrow> sql list" where
  "issued s s' = drop (length (executed s)) (executed s')"

text \<open>What the resolvers read as the project's workspace: that of the first row with the id.\<close>

definition parent_workspace :: "db \<Rightarrow> uuid \<Rightarrow> uuid option" where
  "parent_workspace s p = first_row (map proj_workspace_id [P \<leftarrow> projects s. proj_id P = p])"

text \<open>
  The authorization block that \<open>addProjectMember\<close> and \<open>removeProjectMember\<close> share, read
  off their text: the error it throws, if any, and the statements it runs, in order.
\<close>

definition gate_outcome :: "db \<Rightarrow> uuid \<Rightarrow> uuid \<Rightarrow> error option \<times> sql list" where
  "gate_outcome s caller p =
     (if holds_project_lead s caller p then (None, [SELECT_project_member_lead p caller])
      else case parent_workspace s p of
        None \<Rightarrow> (Some (GraphQLError ''Project not found''),
                  [SELECT_project_member_lead p caller, SELECT_project_workspace_id p])
      | Some w \<Rightarrow>
          if w = [] then (Some (GraphQLError ''Project not found''),
                  [SELECT_project_member_lead p caller, SELECT_project_workspace_id p])
          else (if holds_workspace_owner s caller w then None
                else Some (GraphQLError ''Forbidden: Project Lead or Workspace Owner access required''),
                [SELECT_project_member_lead p caller, SELECT_project_workspace_id p,
                 SELECT_workspace_member_owner w caller]))"

section \<open>A small installation, for the concrete cases\<close>

text \<open>
  Workspace \<open>w1\<close> is owned by Ada; Ben is a Member of it and leads its project \<open>p1\<close>, in
  which Ada has no membership. Cy is in no workspace. Dan is banned and owns \<open>w2\<close>.
  Ada has one session, on device \<open>d1\<close>, not revoked.
\<close>

definition ada :: user_row where
  "ada = \<lparr>user_id = ''u-ada'', user_email = ''ada@example.com'', user_password_hash = ''hash-a'',
          user_full_name = ''Ada'', user_global_status = ACTIVE\<rparr>"

definition ben :: user_row where
  "ben = \<lparr>user_id = ''u-ben'', user_email = ''ben@example.com'', user_password_hash = ''hash-b'',
          user_full_name = ''Ben'', user_global_status = ACTIVE\<rparr>"

definition cy :: user_row where
  "cy = \<lparr>user_id = ''u-cy'', user_email = ''cy@example.com'', user_password_hash = ''hash-c'',
         user_full_name = ''Cy'', user_global_status = ACTIVE\<rparr>"

definition dan :: user_row where
  "dan = \<lparr>user_id = ''u-dan'', user_email = ''dan@example.com'', user_password_hash = ''hash-d'',
          user_full_name = ''Dan'', user_global_status = BANNED\<rparr>"

definition site :: db where
  "site =
     \<lparr>users = [ada, ben, cy, dan],
      user_devices = [\<lparr>dev_user_id = ''u-ada'', dev_device_id = ''d1'', dev_ip_address = None,
                       dev_user_agent = None, dev_login_time = 10, dev_is_revoked = False,
                       dev_revoked_at = None\<rparr>],
      workspaces = [\<lparr>ws_id = ''w1'', ws_name = ''One'', ws_created_by = ''u-ada''\<rparr>,
                    \<lparr>ws_id = ''w2'', ws_name = ''Two'', ws_created_by = ''u-dan''\<rparr>],
      workspace_members =
        [\<lparr>wm_workspace_id = ''w1'', wm_user_id = ''u-ada'', wm_role = Owner\<rparr>,
         \<lparr>wm_workspace_id = ''w1'', wm_user_id = ''u-ben'', wm_role = Member\<rparr>,
         \<lparr>wm_workspace_id = ''w2'', wm_user_id = ''u-dan'', wm_role = Owner\<rparr>],
      projects = [\<lparr>proj_id = ''p1'', proj_workspace_id = ''w1'', proj_name = ''Alpha'',
                   proj_created_by = ''u-ben''\<rparr>],
      project_members = [\<lparr>pm_project_id = ''p1'', pm_user_id = ''u-ben'', pm_role = Project_Lead\<rparr>],
      tasks = [\<lparr>task_id = ''t1'', task_project_id = ''p1'', task_title = ''First'',
                task_status = TODO, task_created_by = ''u-ben''\<rparr>],
      task_assignments = [],
      clock = 1000,
      executed = []\<rparr>"

text \<open>The GraphQL context of a request by the user with the given id.\<close>

definition context_of :: "uuid \<Rightarrow> Context" where
  "context_of u = \<lparr>ctx_userId = Some u, ctx_user = None, ctx_ipAddress = None, ctx_userAgent = None\<rparr>"

text \<open>An environment that sets the two secrets apart, and the one that sets nothing.\<close>

definition production_env :: env where
  "production_env = map_of [(''JWT_SECRET'', ''access-key''), (''JWT_REFRESH_SECRET'', ''refresh-key'')]"

definition empty_env :: env where
  "empty_env = (\<lambda>_. None)"

text \<open>The two spans the defaults use, in seconds.\<close>

definition seconds :: "string \<Rightarrow> nat" where
  "seconds str = (if str = ''15m'' then 900 else if str = ''7d'' then 604800 else 0)"

definition bearer_request :: "token \<Rightarrow> request" where
  "bearer_request tok =
     \<lparr>req_authorization = Some (Bearer tok), req_cookie_refreshToken = None,
      req_x_refresh_token = None, req_x_device_id = None, req_ip = None,
      req_user_agent = None, req_body_email = [], req_body_password = []\<rparr>"

text \<open>
  Dan's access token, issued at time 0 under the production configuration, while his
  account was still active; it expires at 900.
\<close>

definition dan_token :: token where
  "dan_token = generateAccessToken (config_jwt production_env) seconds 0
     \<lparr>payload_userId = ''u-dan'', payload_email = ''dan@example.com'',
      payload_globalStatus = ACTIVE\<rparr>"

text \<open>Ada's login request, and a password check that accepts her password.\<close>

definition ada_login :: request where
  "ada_login =
     \<lparr>req_authorization = None, req_cookie_refreshToken = None, req_x_refresh_token = None,
      req_x_device_id = None, req_ip = Some ''10.0.0.7'', req_user_agent = Some ''browser'',
      req_body_email = ''ada@example.com'', req_body_password = ''pw-a''\<rparr>"

definition bcrypt_compare :: "string \<Rightarrow> string \<Rightarrow> bool" where
  "bcrypt_compare password hash = (password = ''pw-a'' \<and> hash = ''hash-a'')"

text \<open>
  The logout request a browser sends after that login: the access token as bearer, the
  refresh cookie, and no \<^verbatim>\<open>x-device-id\<close> header.
\<close>

definition logout_after :: "response \<Rightarrow> request" where
  "logout_after res =
     (case body res of
        Login_body accessToken refreshToken _ \<Rightarrow>
          (bearer_request accessToken)\<lparr>req_cookie_refreshToken := Some refreshToken\<rparr>
      | _ \<Rightarrow> bearer_request (Opaque []))"

section \<open>The query layer\<close>

lemma filter_unique_key:
  "distinct (map f xs) \<Longrightarrow> x \<in> set xs \<Longrightarrow> [y \<leftarrow> xs. f y = f x] = [x]"
proof (induction xs)
  case Nil
  then show ?case by simp
next
  case (Cons a xs)
  show ?case
  proof (cases "a = x")
    case True
    from Cons.prems have "f x \<notin> f ` set xs" using True by simp
    then have "[y \<leftarrow> xs. f y = f x] = []" by (auto simp: filter_empty_conv image_iff)
    with True show ?thesis by simp
  next
    case False
    with Cons.prems have xin: "x \<in> set xs" by simp
    with Cons.prems have "f a \<noteq> f x" by auto
    moreover from Cons.IH Cons.prems xin have "[y \<leftarrow> xs. f y = f x] = [x]" by simp
    ultimately show ?thesis by simp
  qed
qed

lemma filter_Cons_member: "filter Q xs = z # zs \<Longrightarrow> z \<in> set xs \<and> Q z"
proof -
  assume "filter Q xs = z # zs"
  then have "z \<in> set (filter Q xs)" by simp
  then show ?thesis by simp
qed

lemmas async_defs = await_def query_def reading_def writing_def succeed_def throw_def

lemmas site_defs = site_def ada_def ben_def cy_def dan_def context_of_def

lemmas handler_defs =
  await_def query_def reading_def writing_def succeed_def throw_def authenticated_def
  checkWorkspaceAccess_def checkProjectAccess_def checkWorkspaceOwnership_def
  checkProjectLeadAccess_def requireWorkspaceAccess_def requireProjectAccess_def
  workspace_member_roles_def project_member_roles_def workspace_owner_rows_def
  project_lead_rows_def select_project_workspace_id_def first_row_def
  insert_project_member_def insert_workspace_member_def select_task_def
  select_task_assignments_def getUserById_def getUserByEmail_def

lemmas predicate_defs =
  holds_project_lead_def holds_workspace_owner_def owns_parent_workspace_def
  workspace_member_def projects_pkey_def tasks_pkey_def unique_member_per_workspace_def issued_def

lemma frame_executed [simp]:
  "parent_workspace (s\<lparr>executed := x\<rparr>) p = parent_workspace s p"
  "holds_project_lead (s\<lparr>executed := x\<rparr>) u p = holds_project_lead s u p"
  "holds_workspace_owner (s\<lparr>executed := x\<rparr>) u w = holds_workspace_owner s u w"
  "owns_parent_workspace (s\<lparr>executed := x\<rparr>) u p = owns_parent_workspace s u p"
  "workspace_member_roles wo u (s\<lparr>executed := x\<rparr>) = workspace_member_roles wo u s"
  "project_member_roles p u (s\<lparr>executed := x\<rparr>) = project_member_roles p u s"
  by (simp_all add: parent_workspace_def holds_project_lead_def holds_workspace_owner_def
        owns_parent_workspace_def workspace_member_roles_def project_member_roles_def)

lemma issued_append [simp]: "issued s (s'\<lparr>executed := executed s @ qs\<rparr>) = qs"
  by (simp add: issued_def)

lemma authenticated_run:
  "ctx_userId ctx = Some caller \<Longrightarrow> caller \<noteq> [] \<Longrightarrow> authenticated ctx s = (Inr caller, s)"
  by (simp add: authenticated_def succeed_def)

lemma checkWorkspaceAccess_run:
  "checkWorkspaceAccess u w m s =
     (Inr (case workspace_member_roles w u s of
             [] \<Rightarrow> \<lparr>hasAccess = False, role = None\<rparr>
           | r # _ \<Rightarrow> \<lparr>hasAccess = (workspace_roleHierarchy m \<le> workspace_roleHierarchy r),
                       role = Some r\<rparr>),
      s\<lparr>executed := executed s @ [SELECT_workspace_member_role w u]\<rparr>)"
  by (simp add: checkWorkspaceAccess_def async_defs split: list.splits)

lemma checkProjectAccess_run:
  "checkProjectAccess u p m s =
     (Inr (case project_member_roles p u s of
             [] \<Rightarrow> \<lparr>hasAccess = False, role = None\<rparr>
           | r # _ \<Rightarrow> \<lparr>hasAccess = (project_roleHierarchy m \<le> project_roleHierarchy r),
                       role = Some r\<rparr>),
      s\<lparr>executed := executed s @ [SELECT_project_member_role p u]\<rparr>)"
  by (simp add: checkProjectAccess_def async_defs split: list.splits)

lemma checkProjectLeadAccess_run:
  "checkProjectLeadAccess u p s =
     (Inr (holds_project_lead s u p), s\<lparr>executed := executed s @ [SELECT_project_member_lead p u]\<rparr>)"
  by (auto simp: checkProjectLeadAccess_def async_defs project_lead_rows_def holds_project_lead_def
        filter_empty_conv)

lemma checkWorkspaceOwnership_run:
  "checkWorkspaceOwnership u w s =
     (Inr (holds_workspace_owner s u w),
      s\<lparr>executed := executed s @ [SELECT_workspace_member_owner w u]\<rparr>)"
  by (auto simp: checkWorkspaceOwnership_def async_defs workspace_owner_rows_def
        holds_workspace_owner_def filter_empty_conv)

lemma select_project_workspace_id_run:
  "select_project_workspace_id p s =
     (Inr (parent_workspace s p), s\<lparr>executed := executed s @ [SELECT_project_workspace_id p]\<rparr>)"
  by (simp add: select_project_workspace_id_def async_defs parent_workspace_def)

lemma workspace_member_roles_unique:
  assumes "unique_member_per_workspace s" and "m \<in> set (workspace_members s)"
  shows "workspace_member_roles (Some (wm_workspace_id m)) (wm_user_id m) s = [wm_role m]"
proof -
  let ?key = "\<lambda>r. (wm_workspace_id r, wm_user_id r)"
  have "[r \<leftarrow> workspace_members s. ?key r = ?key m] = [m]"
    using assms by (intro filter_unique_key) (simp_all add: unique_member_per_workspace_def)
  then show ?thesis by (simp add: workspace_member_roles_def)
qed

lemma workspace_member_roles_empty_iff:
  "workspace_member_roles (Some w) u s = [] \<longleftrightarrow> \<not> workspace_member s u w"
  by (auto simp: workspace_member_roles_def workspace_member_def filter_empty_conv)

lemma workspace_member_roles_NULL: "workspace_member_roles None u s = []"
  by (simp add: workspace_member_roles_def)

lemma viewer_level_least: "Suc 0 \<le> workspace_roleHierarchy r"
  by (cases r) simp_all

section \<open>The project's parent workspace\<close>

lemma parent_workspace_None:
  "parent_workspace s p = None \<longleftrightarrow> (\<forall>P\<in>set (projects s). proj_id P \<noteq> p)"
  by (auto simp: parent_workspace_def first_row_def filter_empty_conv
        split: list.splits dest: filter_Cons_member)

lemma parent_workspace_row:
  assumes "parent_workspace s p = Some w"
  shows "\<exists>P\<in>set (projects s). proj_id P = p \<and> proj_workspace_id P = w"
proof -
  from assms obtain P rest where "[P \<leftarrow> projects s. proj_id P = p] = P # rest" "w = proj_workspace_id P"
    by (auto simp: parent_workspace_def first_row_def split: list.splits)
  then show ?thesis by (auto dest: filter_Cons_member)
qed

lemma parent_workspace_unique:
  assumes "projects_pkey s" and "P \<in> set (projects s)"
  shows "parent_workspace s (proj_id P) = Some (proj_workspace_id P)"
proof -
  have "[x \<leftarrow> projects s. proj_id x = proj_id P] = [P]"
    using assms by (intro filter_unique_key) (simp_all add: projects_pkey_def)
  then show ?thesis by (simp add: parent_workspace_def first_row_def)
qed

lemma owns_parent_workspace_iff:
  assumes "projects_pkey s"
  shows "owns_parent_workspace s u p \<longleftrightarrow>
           (\<exists>w. parent_workspace s p = Some w \<and> holds_workspace_owner s u w)"
proof
  assume "owns_parent_workspace s u p"
  then obtain P where P: "P \<in> set (projects s)" "proj_id P = p"
      "holds_workspace_owner s u (proj_workspace_id P)"
    by (auto simp: owns_parent_workspace_def)
  with parent_workspace_unique [OF assms P(1)]
  show "\<exists>w. parent_workspace s p = Some w \<and> holds_workspace_owner s u w"
    by auto
next
  assume "\<exists>w. parent_workspace s p = Some w \<and> holds_workspace_owner s u w"
  then obtain w where w: "parent_workspace s p = Some w" "holds_workspace_owner s u w" by blast
  from parent_workspace_row [OF w(1)] w(2) show "owns_parent_workspace s u p"
    by (auto simp: owns_parent_workspace_def)
qed

lemma parent_workspace_nonempty:
  assumes "\<forall>P\<in>set (projects s). proj_workspace_id P \<noteq> []" and "parent_workspace s p = Some w"
  shows "w \<noteq> []"
  using parent_workspace_row [OF assms(2)] assms(1) by auto

lemma target_not_in_parent:
  assumes "\<forall>P\<in>set (projects s). proj_id P = p \<longrightarrow> \<not> workspace_member s target (proj_workspace_id P)"
  shows "workspace_member_roles (parent_workspace s p) target s = []"
proof (cases "parent_workspace s p")
  case None
  then show ?thesis by (simp add: workspace_member_roles_NULL)
next
  case (Some w)
  from parent_workspace_row [OF Some] assms have "\<not> workspace_member s target w" by auto
  with Some show ?thesis by (simp add: workspace_member_roles_empty_iff)
qed

section \<open>The project-membership mutations, step by step\<close>

lemma removeProjectMember_outcome:
  assumes "ctx_userId ctx = Some caller" "caller \<noteq> []"
  shows "removeProjectMember p target ctx s =
    (case gate_outcome s caller p of
       (Some e, qs) \<Rightarrow> (Inl e, s\<lparr>executed := executed s @ qs\<rparr>)
     | (None, qs) \<Rightarrow>
         (Inr True, s\<lparr>project_members :=
                         [m \<leftarrow> project_members s. \<not> (pm_project_id m = p \<and> pm_user_id m = target)],
                      executed := executed s @ qs @ [DELETE_project_member p target]\<rparr>))"
  unfolding removeProjectMember_def gate_outcome_def
  by (simp add: await_def authenticated_run [OF assms] checkProjectLeadAccess_run
      select_project_workspace_id_run checkWorkspaceOwnership_run succeed_def throw_def
      query_def writing_def split: option.splits)

lemma addProjectMember_outcome:
  assumes "ctx_userId ctx = Some caller" "caller \<noteq> []"
  shows "addProjectMember p target ctx s =
    (case gate_outcome s caller p of
       (Some e, qs) \<Rightarrow> (Inl e, s\<lparr>executed := executed s @ qs\<rparr>)
     | (None, qs) \<Rightarrow>
         (let qs' = qs @ [SELECT_project_workspace_id p,
                          SELECT_workspace_member_role (parent_workspace s p) target]
          in if workspace_member_roles (parent_workspace s p) target s = []
             then (Inl (GraphQLError ''User must be a workspace member first''),
                   s\<lparr>executed := executed s @ qs'\<rparr>)
             else case insert_project_member p target Contributor s of
                    (Inl e, s') \<Rightarrow> (Inl e, s'\<lparr>executed := executed s @ qs'\<rparr>)
                  | (Inr u, s') \<Rightarrow>
                      (Inr True, s'\<lparr>executed := executed s @ qs' @
                                      [INSERT_project_member p target Contributor]\<rparr>)))"
  unfolding addProjectMember_def gate_outcome_def
  by (simp add: await_def authenticated_run [OF assms] checkProjectLeadAccess_run
      select_project_workspace_id_run checkWorkspaceOwnership_run checkWorkspaceAccess_run
      succeed_def throw_def query_def insert_project_member_def viewer_level_least Let_def
      split: option.splits list.splits)

lemma gate_outcome_authorized:
  assumes "projects_pkey s" and "\<forall>P\<in>set (projects s). proj_workspace_id P \<noteq> []"
  shows "fst (gate_outcome s caller p) = None \<longleftrightarrow>
           holds_project_lead s caller p \<or> owns_parent_workspace s caller p"
  using parent_workspace_nonempty [OF assms(2), of p]
  by (auto simp: gate_outcome_def owns_parent_workspace_iff [OF assms(1)] split: option.splits)

lemma gate_outcome_error:
  "fst (gate_outcome s caller p) = Some e \<Longrightarrow>
     e = GraphQLError ''Project not found'' \<or>
     e = GraphQLError ''Forbidden: Project Lead or Workspace Owner access required''"
  by (auto simp: gate_outcome_def split: option.splits if_splits)

lemma gate_outcome_order:
  "\<exists>rest. snd (gate_outcome s caller p) = SELECT_project_member_lead p caller # rest \<and>
          (\<forall>w u. SELECT_workspace_member_owner w u \<in> set rest \<longrightarrow> \<not> holds_project_lead s caller p)"
  by (auto simp: gate_outcome_def split: option.splits)

section \<open>Adding a member who is one already\<close>

lemma insert_project_member_conflict:
  "project_member s target p \<Longrightarrow> insert_project_member p target r s = (Inr (), s)"
  by (auto simp: insert_project_member_def project_member_def filter_empty_conv)

lemma insert_workspace_member_conflict:
  "workspace_member s target w \<Longrightarrow> insert_workspace_member w target r s = (Inr (), s)"
  by (auto simp: insert_workspace_member_def workspace_member_def filter_empty_conv)

lemma authenticated_cases:
  "authenticated ctx s = (Inl (GraphQLError ''Unauthorized''), s) \<or>
   (\<exists>caller. ctx_userId ctx = Some caller \<and> caller \<noteq> [] \<and> authenticated ctx s = (Inr caller, s))"
  by (simp add: authenticated_def succeed_def throw_def split: option.splits)

lemma addWorkspaceMember_outcome:
  assumes "ctx_userId ctx = Some caller" "caller \<noteq> []"
  shows "addWorkspaceMember w target ctx s =
    (if \<not> holds_workspace_owner s caller w
     then (Inl (GraphQLError ''Forbidden: Owner access required''),
           s\<lparr>executed := executed s @ [SELECT_workspace_member_owner w caller]\<rparr>)
     else case insert_workspace_member w target Member s of
            (Inl e, s') \<Rightarrow> (Inl e, s'\<lparr>executed := executed s @ [SELECT_workspace_member_owner w caller]\<rparr>)
          | (Inr u, s') \<Rightarrow>
              (Inr True, s'\<lparr>executed := executed s @ [SELECT_workspace_member_owner w caller,
                                                        INSERT_workspace_member w target Member]\<rparr>))"
  unfolding addWorkspaceMember_def
  by (simp add: await_def authenticated_run [OF assms] checkWorkspaceOwnership_run
      succeed_def throw_def query_def insert_workspace_member_def)

lemma unauthenticated_add:
  assumes "authenticated ctx s = (Inl e, s)"
  shows "addWorkspaceMember w target ctx s = (Inl e, s)" "addProjectMember p target ctx s = (Inl e, s)"
  using assms by (simp_all add: addWorkspaceMember_def addProjectMember_def await_def)

lemma addWorkspaceMember_frame:
  assumes "workspace_member s target w"
  shows "workspace_members (snd (addWorkspaceMember w target ctx s)) = workspace_members s"
  using authenticated_cases [of ctx s]
proof
  assume "authenticated ctx s = (Inl (GraphQLError ''Unauthorized''), s)"
  then show ?thesis by (simp add: unauthenticated_add)
next
  assume "\<exists>caller. ctx_userId ctx = Some caller \<and> caller \<noteq> [] \<and> authenticated ctx s = (Inr caller, s)"
  then obtain caller where c: "ctx_userId ctx = Some caller" "caller \<noteq> []" by blast
  show ?thesis
    by (simp add: addWorkspaceMember_outcome [OF c] insert_workspace_member_conflict [OF assms])
qed

lemma addProjectMember_frame:
  assumes "project_member s target p"
  shows "project_members (snd (addProjectMember p target ctx s)) = project_members s"
  using authenticated_cases [of ctx s]
proof
  assume "authenticated ctx s = (Inl (GraphQLError ''Unauthorized''), s)"
  then show ?thesis by (simp add: unauthenticated_add)
next
  assume "\<exists>caller. ctx_userId ctx = Some caller \<and> caller \<noteq> [] \<and> authenticated ctx s = (Inr caller, s)"
  then obtain caller where c: "ctx_userId ctx = Some caller" "caller \<noteq> []" by blast
  obtain e qs where go: "gate_outcome s caller p = (e, qs)" by (cases "gate_outcome s caller p")
  show ?thesis
    by (cases e)
       (simp_all add: addProjectMember_outcome [OF c] go Let_def
          insert_project_member_conflict [OF assms])
qed

lemma addProjectMember_existing_true:
  assumes auth: "ctx_userId ctx = Some caller" "caller \<noteq> []"
    and pk: "projects_pkey s"
    and ne: "\<forall>P\<in>set (projects s). proj_workspace_id P \<noteq> []"
    and authorized: "holds_project_lead s caller p \<or> owns_parent_workspace s caller p"
    and P: "P \<in> set (projects s)" "proj_id P = p" "workspace_member s target (proj_workspace_id P)"
    and ex: "project_member s target p"
  shows "fst (addProjectMember p target ctx s) = Inr True"
proof -
  obtain e qs where go: "gate_outcome s caller p = (e, qs)" by (cases "gate_outcome s caller p")
  have "e = None" using gate_outcome_authorized [OF pk ne, of caller p] go authorized by simp
  moreover have "parent_workspace s p = Some (proj_workspace_id P)"
    using parent_workspace_unique [OF pk P(1)] P(2) by simp
  moreover have "workspace_member_roles (Some (proj_workspace_id P)) target s \<noteq> []"
    using P(3) by (simp add: workspace_member_roles_empty_iff)
  ultimately show ?thesis
    by (simp add: addProjectMember_outcome [OF auth] go Let_def insert_project_member_conflict [OF ex])
qed

section \<open>Tokens, sessions, tasks\<close>

lemmas token_defs = dan_token_def generateAccessToken_def generateRefreshToken_def
  verifyAccessToken_def verifyRefreshToken_def jwt_sign_def jwt_verify_def config_jwt_def
  production_env_def empty_env_def or_default_def seconds_def bearer_request_def

lemma authenticate_rejects_banned:
  "fst (authenticate cfg now req s) = Inr (uid, user) \<Longrightarrow> user_global_status user \<noteq> BANNED"
  by (auto simp: authenticate_def split: option.splits authorization.splits sum.splits
        prod.splits if_splits)

lemma isDeviceRevoked_always: "fst (isDeviceRevoked u d s) = Inr True"
  by (simp add: isDeviceRevoked_def async_defs js_or_def split: list.splits bool.splits)

lemma updateProjectMemberRole_outcome:
  assumes "ctx_userId ctx = Some caller" "caller \<noteq> []"
  shows "updateProjectMemberRole p target r ctx s =
    (if holds_project_lead s caller p
     then (Inr True,
           s\<lparr>project_members := map (\<lambda>m. if pm_project_id m = p \<and> pm_user_id m = target
                                            then m\<lparr>pm_role := r\<rparr> else m) (project_members s),
             executed := executed s @ [SELECT_project_member_lead p caller,
                                       UPDATE_project_member_role r p target]\<rparr>)
     else if holds_workspace_owner s caller p
     then (Inr True,
           s\<lparr>project_members := map (\<lambda>m. if pm_project_id m = p \<and> pm_user_id m = target
                                            then m\<lparr>pm_role := r\<rparr> else m) (project_members s),
             executed := executed s @ [SELECT_project_member_lead p caller,
                                       SELECT_workspace_member_owner p caller,
                                       UPDATE_project_member_role r p target]\<rparr>)
     else (Inl (GraphQLError ''Forbidden: Project Lead or Workspace Owner access required''),
           s\<lparr>executed := executed s @ [SELECT_project_member_lead p caller,
                                       SELECT_workspace_member_owner p caller]\<rparr>))"
  unfolding updateProjectMemberRole_def
  by (simp add: await_def authenticated_run [OF assms] checkProjectLeadAccess_run
      checkWorkspaceOwnership_run succeed_def throw_def query_def writing_def)

lemma select_task_run:
  "select_task ident s = (Inr [t \<leftarrow> tasks s. task_id t = ident], s\<lparr>executed := executed s @ [SELECT_task ident]\<rparr>)"
  by (simp add: select_task_def async_defs)

lemma tasks_none: "(\<forall>t\<in>set (tasks s). task_id t \<noteq> ident) \<Longrightarrow> [t \<leftarrow> tasks s. task_id t = ident] = []"
  by (auto simp: filter_empty_conv)

lemma tasks_unique:
  assumes "tasks_pkey s" "t \<in> set (tasks s)"
  shows "[x \<leftarrow> tasks s. task_id x = task_id t] = [t]"
  using assms by (intro filter_unique_key) (simp_all add: tasks_pkey_def)

lemma project_member_roles_empty_iff:
  "project_member_roles p u s = [] \<longleftrightarrow> \<not> project_member s u p"
  by (auto simp: project_member_roles_def project_member_def filter_empty_conv)

section \<open>What the three defects do on every store\<close>

text \<open>
  The role update admits the Owner of the workspace whose id is the project's id, not of
  the project's parent workspace. The GraphQL context carries the id of whoever the token
  names, whatever the account's status. A logout touches no session but the one named by
  the \<^verbatim>\<open>x-device-id\<close> header, or \<open>unknown\<close>.
\<close>

lemma updateProjectMemberRole_gate:
  assumes "ctx_userId ctx = Some caller" "caller \<noteq> []"
  shows "fst (updateProjectMemberRole p target r ctx s) = Inr True \<longleftrightarrow>
           holds_project_lead s caller p \<or> holds_workspace_owner s caller p"
  by (simp add: updateProjectMemberRole_outcome [OF assms])

lemma getContext_ignores_status:
  assumes "verifyAccessToken cfg now tok = Inr payload"
  shows "ctx_userId (fst (getContext cfg now (bearer_request tok) s)) = Some (payload_userId payload)"
  using assms
  by (simp add: getContext_def verifyAccessToken_def bearer_request_def getUserById_def async_defs
        split: sum.splits prod.splits)

lemma authenticate_user_devices:
  "user_devices (snd (authenticate cfg now req s)) = user_devices s"
  by (simp add: authenticate_def getUserById_def async_defs
        split: option.splits authorization.splits sum.splits prod.splits)

lemma logout_revokes_only_named_device:
  assumes "r \<in> set (user_devices s)"
    and "dev_device_id r \<noteq> or_default (req_x_device_id req) ''unknown''"
  shows "r \<in> set (user_devices (snd (logout cfg now req s)))"
proof (cases "authenticate cfg now req s")
  case (Pair res s1)
  with authenticate_user_devices [of cfg now req s] have eq: "user_devices s1 = user_devices s" by simp
  show ?thesis
  proof (cases res)
    case (Inl rejected)
    with Pair eq assms(1) show ?thesis by (simp add: logout_def)
  next
    case (Inr ok)
    obtain uid usr where ok: "ok = (uid, usr)" by (cases ok)
    have "r \<in> (\<lambda>x. if device_matches uid (or_default (req_x_device_id req) ''unknown'') x
                 then x\<lparr>dev_is_revoked := True, dev_revoked_at := Some (clock s1)\<rparr> else x) ` set (user_devices s)"
      using assms by (auto simp: device_matches_def image_iff intro!: bexI [of _ r])
    with Pair Inr ok eq assms(1) show ?thesis
      by (simp add: logout_def revokeDevice_def query_def writing_def Let_def)
  qed
qed

section \<open>Claims\<close>

text \<open>
  C1. A banned user is rejected by the REST middleware, but not on the GraphQL path. Dan is
  banned; his access token is well formed and, at time 60, not expired.
  \<open>authenticate\<close> answers his request with 403. \<open>getContext\<close> puts his id into the
  context, and with that context the query \<open>me\<close> returns his record, the mutation
  \<open>addWorkspaceMember\<close> on the workspace he owns adds Cy to it, and the subscription
  attaches to the workspace's channel.
\<close>

theorem banned_user_graphql_executes:
  "user_global_status dan = BANNED \<and>
   verifyAccessToken (config_jwt production_env) 60 dan_token =
     Inr \<lparr>payload_userId = ''u-dan'', payload_email = ''dan@example.com'', payload_globalStatus = ACTIVE\<rparr> \<and>
   fst (authenticate (config_jwt production_env) 60 (bearer_request dan_token) site) =
     Inl (json_error 403 ''Access denied: Account is banned'') \<and>
   (case getContext (config_jwt production_env) 60 (bearer_request dan_token) site of
      (ctx, s1) \<Rightarrow>
        ctx_userId ctx = Some ''u-dan'' \<and>
        fst (me ctx s1) = Inr (Some dan) \<and>
        fst (addWorkspaceMember ''w2'' ''u-cy'' ctx s1) = Inr True \<and>
        workspace_member (snd (addWorkspaceMember ''w2'' ''u-cy'' ctx s1)) ''u-cy'' ''w2'' \<and>
        fst (taskStatusUpdated_subscribe ''w2'' ctx s1) = Inr ''TASK_STATUS_UPDATED_w2'')"
  by (simp add: authenticate_def getContext_def me_def addWorkspaceMember_def
      taskStatusUpdated_subscribe_def json_error_def
      token_defs handler_defs site_defs predicate_defs)

text \<open>
  C2. Ada owns workspace \<open>w1\<close>, the parent of project \<open>p1\<close>, and holds no membership in
  \<open>p1\<close>. Her \<open>updateProjectMemberRole\<close> on \<open>p1\<close> fails with the permissions error: after
  the project-lead check the resolver asks for an Owner row of workspace \<open>p1\<close>, the
  project's own id. Her \<open>removeProjectMember\<close> on the same project returns true.
\<close>

theorem updateProjectMemberRole_owner_forbidden:
  "owns_parent_workspace site ''u-ada'' ''p1'' \<and> \<not> holds_project_lead site ''u-ada'' ''p1'' \<and>
   fst (updateProjectMemberRole ''p1'' ''u-ben'' Contributor (context_of ''u-ada'') site) =
     Inl (GraphQLError ''Forbidden: Project Lead or Workspace Owner access required'') \<and>
   issued site (snd (updateProjectMemberRole ''p1'' ''u-ben'' Contributor (context_of ''u-ada'') site)) =
     [SELECT_project_member_lead ''p1'' ''u-ada'', SELECT_workspace_member_owner ''p1'' ''u-ada''] \<and>
   fst (removeProjectMember ''p1'' ''u-ben'' (context_of ''u-ada'') site) = Inr True"
  by (simp add: updateProjectMemberRole_def removeProjectMember_def handler_defs site_defs predicate_defs)

text \<open>
  C3. \<open>checkWorkspaceAccess(userId, workspaceId, minimumRole)\<close> resolves to
  \<open>hasAccess = false\<close> with no role whenever no membership row exists for the pair,
  whatever the requested minimum. When a row with role \<open>r\<close> exists (and the table obeys
  its uniqueness constraint, so that it is the row of the pair) it resolves to
  \<open>hasAccess = (level r \<ge> level minimumRole)\<close> with that role, under Owner = 3, Member = 2,
  Viewer = 1; hence a member whose role is at least the minimum passes.
\<close>

theorem checkWorkspaceAccess_membership:
  "((\<forall>m\<in>set (workspace_members s). \<not> (wm_workspace_id m = w \<and> wm_user_id m = u)) \<longrightarrow>
      fst (checkWorkspaceAccess u (Some w) minimumRole s) = Inr \<lparr>hasAccess = False, role = None\<rparr>) \<and>
   (unique_member_per_workspace s \<and> m \<in> set (workspace_members s) \<longrightarrow>
      fst (checkWorkspaceAccess (wm_user_id m) (Some (wm_workspace_id m)) minimumRole s) =
        Inr \<lparr>hasAccess = (workspace_roleHierarchy (wm_role m) \<ge> workspace_roleHierarchy minimumRole),
             role = Some (wm_role m)\<rparr>) \<and>
   (unique_member_per_workspace s \<and> m \<in> set (workspace_members s) \<and>
    workspace_roleHierarchy (wm_role m) \<ge> workspace_roleHierarchy minimumRole \<longrightarrow>
      (\<exists>res. fst (checkWorkspaceAccess (wm_user_id m) (Some (wm_workspace_id m)) minimumRole s) = Inr res
             \<and> hasAccess res)) \<and>
   workspace_roleHierarchy Owner = 3 \<and> workspace_roleHierarchy Member = 2 \<and>
   workspace_roleHierarchy Viewer = 1"
proof -
  have none: "workspace_member_roles (Some w) u s = []"
    if "\<forall>m\<in>set (workspace_members s). \<not> (wm_workspace_id m = w \<and> wm_user_id m = u)"
    using that by (auto simp: workspace_member_roles_def filter_empty_conv)
  show ?thesis
    by (simp add: checkWorkspaceAccess_run workspace_member_roles_unique none)
qed

theorem checkWorkspaceAccess_membership_witness:
  "\<not> workspace_member site ''u-cy'' ''w1'' \<and>
   fst (checkWorkspaceAccess ''u-cy'' (Some ''w1'') Member site) = Inr \<lparr>hasAccess = False, role = None\<rparr> \<and>
   unique_member_per_workspace site \<and>
   \<lparr>wm_workspace_id = ''w1'', wm_user_id = ''u-ada'', wm_role = Owner\<rparr> \<in> set (workspace_members site) \<and>
   workspace_roleHierarchy Owner \<ge> workspace_roleHierarchy Member \<and>
   fst (checkWorkspaceAccess ''u-ada'' (Some ''w1'') Member site) = Inr \<lparr>hasAccess = True, role = Some Owner\<rparr>"
  using checkWorkspaceAccess_membership
    [where s = site and w = "''w1''" and u = "''u-cy''" and minimumRole = Member
       and m = "\<lparr>wm_workspace_id = ''w1'', wm_user_id = ''u-ada'', wm_role = Owner\<rparr>"]
  by (simp add: site_defs predicate_defs)

text \<open>
  C4. For \<open>addProjectMember\<close> and \<open>removeProjectMember\<close>, called by an authenticated user
  on a store whose project ids are unique and whose workspace ids are not empty: the
  caller passes the authorization block (the mutation does not end in its
  \<open>Project not found\<close> or \<open>Forbidden\<close> error; for the removal, it returns true) if and only
  if they hold Project Lead on the project or Owner on the project's parent workspace.
  The first statement either mutation runs is the project-lead check, and the
  workspace-ownership check is among the later ones only when the caller does not hold
  Project Lead.
\<close>

theorem project_membership_gate:
  assumes auth: "ctx_userId ctx = Some caller" "caller \<noteq> []"
    and pk: "projects_pkey s"
    and ne: "\<forall>P\<in>set (projects s). proj_workspace_id P \<noteq> []"
  shows
    "(fst (removeProjectMember p target ctx s) = Inr True \<longleftrightarrow>
        holds_project_lead s caller p \<or> owns_parent_workspace s caller p) \<and>
     (fst (addProjectMember p target ctx s) \<notin>
          {Inl (GraphQLError ''Project not found''),
           Inl (GraphQLError ''Forbidden: Project Lead or Workspace Owner access required'')} \<longleftrightarrow>
        holds_project_lead s caller p \<or> owns_parent_workspace s caller p) \<and>
     (\<forall>s'\<in>{snd (addProjectMember p target ctx s), snd (removeProjectMember p target ctx s)}.
        \<exists>rest. issued s s' = SELECT_project_member_lead p caller # rest \<and>
          (\<forall>w u. SELECT_workspace_member_owner w u \<in> set rest \<longrightarrow> \<not> holds_project_lead s caller p))"
proof (intro conjI)
  obtain e qs where go: "gate_outcome s caller p = (e, qs)" by (cases "gate_outcome s caller p")
  have e_iff: "e = None \<longleftrightarrow> holds_project_lead s caller p \<or> owns_parent_workspace s caller p"
    using gate_outcome_authorized [OF pk ne, of caller p] go by simp
  have e_err: "\<And>x. e = Some x \<Longrightarrow> x = GraphQLError ''Project not found'' \<or>
     x = GraphQLError ''Forbidden: Project Lead or Workspace Owner access required''"
    using gate_outcome_error [of s caller p] go by simp
  from gate_outcome_order [of s caller p] go obtain rest where
    rest: "qs = SELECT_project_member_lead p caller # rest"
      "\<forall>w u. SELECT_workspace_member_owner w u \<in> set rest \<longrightarrow> \<not> holds_project_lead s caller p"
    by auto
  show "fst (removeProjectMember p target ctx s) = Inr True \<longleftrightarrow>
        holds_project_lead s caller p \<or> owns_parent_workspace s caller p"
    using e_iff by (cases e) (simp_all add: removeProjectMember_outcome [OF auth] go)
  show "fst (addProjectMember p target ctx s) \<notin>
          {Inl (GraphQLError ''Project not found''),
           Inl (GraphQLError ''Forbidden: Project Lead or Workspace Owner access required'')} \<longleftrightarrow>
        holds_project_lead s caller p \<or> owns_parent_workspace s caller p"
  proof (cases e)
    case None
    then show ?thesis using e_iff
      by (auto simp: addProjectMember_outcome [OF auth] go Let_def insert_project_member_def)
  next
    case (Some x)
    then show ?thesis using e_iff e_err [OF Some]
      by (auto simp: addProjectMember_outcome [OF auth] go)
  qed
  have add: "\<exists>r. issued s (snd (addProjectMember p target ctx s)) =
                   SELECT_project_member_lead p caller # r \<and>
          (\<forall>w u. SELECT_workspace_member_owner w u \<in> set r \<longrightarrow> \<not> holds_project_lead s caller p)"
    using rest
    by (cases e) (auto simp: addProjectMember_outcome [OF auth] go Let_def insert_project_member_def)
  have rem: "\<exists>r. issued s (snd (removeProjectMember p target ctx s)) =
                   SELECT_project_member_lead p caller # r \<and>
          (\<forall>w u. SELECT_workspace_member_owner w u \<in> set r \<longrightarrow> \<not> holds_project_lead s caller p)"
    using rest
    by (cases e) (auto simp: removeProjectMember_outcome [OF auth] go)
  show "\<forall>s'\<in>{snd (addProjectMember p target ctx s), snd (removeProjectMember p target ctx s)}.
        \<exists>rest. issued s s' = SELECT_project_member_lead p caller # rest \<and>
          (\<forall>w u. SELECT_workspace_member_owner w u \<in> set rest \<longrightarrow> \<not> holds_project_lead s caller p)"
    using add rem by blast
qed

theorem project_membership_gate_witness:
  "ctx_userId (context_of ''u-ada'') = Some ''u-ada'' \<and> ''u-ada'' \<noteq> [] \<and> projects_pkey site \<and>
   [] \<notin> set (map proj_workspace_id (projects site)) \<and>
   \<not> holds_project_lead site ''u-ada'' ''p1'' \<and> owns_parent_workspace site ''u-ada'' ''p1'' \<and>
   fst (removeProjectMember ''p1'' ''u-ben'' (context_of ''u-ada'') site) = Inr True \<and>
   issued site (snd (removeProjectMember ''p1'' ''u-ben'' (context_of ''u-ada'') site)) =
     [SELECT_project_member_lead ''p1'' ''u-ada'', SELECT_project_workspace_id ''p1'',
      SELECT_workspace_member_owner ''w1'' ''u-ada'', DELETE_project_member ''p1'' ''u-ben'']"
proof -
  have h1: "ctx_userId (context_of ''u-ada'') = Some ''u-ada''" by (simp add: context_of_def)
  have h2: "''u-ada'' \<noteq> []" by simp
  have h3: "projects_pkey site" by (simp add: site_defs predicate_defs)
  have h4: "\<forall>P\<in>set (projects site). proj_workspace_id P \<noteq> []" by (simp add: site_defs)
  have own: "owns_parent_workspace site ''u-ada'' ''p1''" by (simp add: site_defs predicate_defs)
  have nolead: "\<not> holds_project_lead site ''u-ada'' ''p1''" by (simp add: site_defs predicate_defs)
  have tr: "issued site (snd (removeProjectMember ''p1'' ''u-ben'' (context_of ''u-ada'') site)) =
     [SELECT_project_member_lead ''p1'' ''u-ada'', SELECT_project_workspace_id ''p1'',
      SELECT_workspace_member_owner ''w1'' ''u-ada'', DELETE_project_member ''p1'' ''u-ben'']"
    by (simp add: removeProjectMember_def handler_defs site_defs issued_def)
  have h4': "[] \<notin> set (map proj_workspace_id (projects site))" by (simp add: site_defs)
  from project_membership_gate [OF h1 h2 h3 h4, of "''p1''" "''u-ben''"] own
  have "fst (removeProjectMember ''p1'' ''u-ben'' (context_of ''u-ada'') site) = Inr True" by blast
  with h1 h2 h3 h4' own nolead tr show ?thesis by blast
qed

text \<open>
  C5. For every authorized caller (Project Lead of the project or Owner of its parent
  workspace), \<open>addProjectMember\<close> for a target with no membership row in the project's
  parent workspace fails with \<open>User must be a workspace member first\<close>, which is not the
  permissions error, and leaves the project-membership table as it was.
\<close>

theorem addProjectMember_precondition:
  assumes auth: "ctx_userId ctx = Some caller" "caller \<noteq> []"
    and pk: "projects_pkey s"
    and ne: "\<forall>P\<in>set (projects s). proj_workspace_id P \<noteq> []"
    and authorized: "holds_project_lead s caller p \<or> owns_parent_workspace s caller p"
    and outsider: "\<forall>P\<in>set (projects s). proj_id P = p \<longrightarrow>
                     \<not> workspace_member s target (proj_workspace_id P)"
  shows "fst (addProjectMember p target ctx s) =
           Inl (GraphQLError ''User must be a workspace member first'') \<and>
         fst (addProjectMember p target ctx s) \<noteq>
           Inl (GraphQLError ''Forbidden: Project Lead or Workspace Owner access required'') \<and>
         project_members (snd (addProjectMember p target ctx s)) = project_members s"
proof -
  obtain e qs where go: "gate_outcome s caller p = (e, qs)" by (cases "gate_outcome s caller p")
  have "e = None" using gate_outcome_authorized [OF pk ne, of caller p] go authorized by simp
  then show ?thesis
    by (simp add: addProjectMember_outcome [OF auth] go Let_def target_not_in_parent [OF outsider])
qed

theorem addProjectMember_precondition_witness:
  "ctx_userId (context_of ''u-ada'') = Some ''u-ada'' \<and> ''u-ada'' \<noteq> [] \<and> projects_pkey site \<and>
   [] \<notin> set (map proj_workspace_id (projects site)) \<and>
   (holds_project_lead site ''u-ada'' ''p1'' \<or> owns_parent_workspace site ''u-ada'' ''p1'') \<and>
   parent_workspace site ''p1'' = Some ''w1'' \<and> \<not> workspace_member site ''u-cy'' ''w1'' \<and>
   fst (addProjectMember ''p1'' ''u-cy'' (context_of ''u-ada'') site) =
     Inl (GraphQLError ''User must be a workspace member first'') \<and>
   project_members (snd (addProjectMember ''p1'' ''u-cy'' (context_of ''u-ada'') site)) =
     project_members site"
proof -
  have h1: "ctx_userId (context_of ''u-ada'') = Some ''u-ada''" by (simp add: context_of_def)
  have h2: "''u-ada'' \<noteq> []" by simp
  have h3: "projects_pkey site" by (simp add: site_defs predicate_defs)
  have h4: "\<forall>P\<in>set (projects site). proj_workspace_id P \<noteq> []" by (simp add: site_defs)
  have h5: "holds_project_lead site ''u-ada'' ''p1'' \<or> owns_parent_workspace site ''u-ada'' ''p1''"
    by (simp add: site_defs predicate_defs)
  have h6: "\<forall>P\<in>set (projects site). proj_id P = ''p1'' \<longrightarrow>
              \<not> workspace_member site ''u-cy'' (proj_workspace_id P)"
    by (simp add: site_defs predicate_defs)
  have h4': "[] \<notin> set (map proj_workspace_id (projects site))" by (simp add: site_defs)
  have h6': "parent_workspace site ''p1'' = Some ''w1''" "\<not> workspace_member site ''u-cy'' ''w1''"
    by (simp_all add: site_defs predicate_defs parent_workspace_def first_row_def)
  from addProjectMember_precondition [OF h1 h2 h3 h4 h5 h6] h1 h2 h3 h4' h5 h6'
  show ?thesis by blast
qed

text \<open>
  C6. Ada's session on device \<open>d1\<close> exists and is not marked revoked, and
  \<open>isDeviceRevoked\<close> resolves to true for it.
\<close>

theorem isDeviceRevoked_live_session:
  "map dev_is_revoked (filter (device_matches ''u-ada'' ''d1'') (user_devices site)) = [False] \<and>
   fst (isDeviceRevoked ''u-ada'' ''d1'' site) = Inr True"
  by (simp add: isDeviceRevoked_def async_defs js_or_def site_defs device_matches_def)

text \<open>
  C7. Ada logs in; the login records a session under the drawn device id \<open>d2\<close>, not
  revoked, and its response carries the two tokens and her user record. She logs out
  with the access token and the refresh cookie. The logout answers 200 and clears the
  cookie; the statement it runs revokes device \<open>unknown\<close>, and the session recorded at
  login is still not marked revoked.
\<close>

theorem logout_leaves_login_session:
  "(case login (config_jwt production_env) seconds 0 bcrypt_compare ''d2'' ada_login site of
      (res, s1) \<Rightarrow>
        status res = 200 \<and>
        map dev_is_revoked (filter (device_matches ''u-ada'' ''d2'') (user_devices s1)) = [False] \<and>
        (case logout (config_jwt production_env) 60 (logout_after res) s1 of
           (res', s2) \<Rightarrow>
             status res' = 200 \<and> refreshToken_cookie res' = Cookie_cleared \<and>
             issued s1 s2 = [SELECT_user_by_id ''u-ada'', UPDATE_user_device_revoke ''u-ada'' ''unknown''] \<and>
             map dev_is_revoked (filter (device_matches ''u-ada'' ''d2'') (user_devices s2)) = [False] \<and>
             user_devices s2 = user_devices s1))"
  by (simp add: login_def logout_def logout_after_def authenticate_def saveDevice_def
      upsert_user_device_def revokeDevice_def device_matches_def presented_def
      ada_login_def bcrypt_compare_def json_error_def Let_def
      token_defs handler_defs site_defs predicate_defs)

text \<open>
  C8, as amended. When the configured access secret and refresh secret differ, a token
  made by \<open>generateRefreshToken\<close> is rejected by \<open>verifyAccessToken\<close> and a token made by
  \<open>generateAccessToken\<close> is rejected by \<open>verifyRefreshToken\<close>, for every claim set and at
  every time.
\<close>

theorem secrets_differ_tokens_rejected:
  "secret cfg \<noteq> refreshSecret cfg \<Longrightarrow>
     verifyAccessToken cfg now (generateRefreshToken cfg span issued_at payload) =
       Inl (Error ''invalid signature'') \<and>
     verifyRefreshToken cfg now (generateAccessToken cfg span issued_at payload) =
       Inl (Error ''invalid signature'')"
  by (auto simp: verifyAccessToken_def verifyRefreshToken_def generateAccessToken_def
        generateRefreshToken_def jwt_sign_def jwt_verify_def)

theorem secrets_differ_tokens_rejected_witness:
  "secret (config_jwt production_env) \<noteq> refreshSecret (config_jwt production_env) \<and>
   verifyAccessToken (config_jwt production_env) 60
     (generateRefreshToken (config_jwt production_env) seconds 0
        \<lparr>payload_userId = ''u-ada'', payload_email = ''ada@example.com'', payload_globalStatus = ACTIVE\<rparr>) =
     Inl (Error ''invalid signature'') \<and>
   verifyRefreshToken (config_jwt production_env) 60
     (generateAccessToken (config_jwt production_env) seconds 0
        \<lparr>payload_userId = ''u-ada'', payload_email = ''ada@example.com'', payload_globalStatus = ACTIVE\<rparr>) =
     Inl (Error ''invalid signature'')"
proof -
  have h: "secret (config_jwt production_env) \<noteq> refreshSecret (config_jwt production_env)"
    by (simp add: config_jwt_def production_env_def or_default_def)
  from secrets_differ_tokens_rejected [OF h] h show ?thesis by blast
qed

text \<open>
  C8, as stated, fails under the default configuration: with neither secret set in the
  environment both are \<open>change-this-in-production\<close>, and each verifier accepts the other
  kind's token.
\<close>

theorem default_secrets_tokens_accepted:
  "verifyAccessToken (config_jwt empty_env) 60
     (generateRefreshToken (config_jwt empty_env) seconds 0
        \<lparr>payload_userId = ''u-ada'', payload_email = ''ada@example.com'', payload_globalStatus = ACTIVE\<rparr>) =
     Inr \<lparr>payload_userId = ''u-ada'', payload_email = ''ada@example.com'', payload_globalStatus = ACTIVE\<rparr> \<and>
   verifyRefreshToken (config_jwt empty_env) 60
     (generateAccessToken (config_jwt empty_env) seconds 0
        \<lparr>payload_userId = ''u-ada'', payload_email = ''ada@example.com'', payload_globalStatus = ACTIVE\<rparr>) =
     Inr \<lparr>payload_userId = ''u-ada'', payload_email = ''ada@example.com'', payload_globalStatus = ACTIVE\<rparr>"
  by (simp add: token_defs)

text \<open>
  C9, as amended. In \<open>getTask\<close>, \<open>updateTask\<close> and \<open>deleteTask\<close> the lookup of the task
  comes before the authorization check. For every authenticated caller, an id with no
  task row yields \<open>Task not found\<close>, whatever the caller's memberships; for an existing
  task, a caller with no membership in its project gets the authorization error
  (\<open>Forbidden\<close> from \<open>getTask\<close>, \<open>Insufficient permissions\<close> from the other two).
\<close>

theorem task_lookup_precedes_authorization:
  assumes auth: "ctx_userId ctx = Some caller" "caller \<noteq> []"
  shows
    "((\<forall>t\<in>set (tasks s). task_id t \<noteq> ident) \<longrightarrow>
        fst (getTask ident ctx s) = Inl (GraphQLError ''Task not found'') \<and>
        fst (updateTask_guard ident ctx s) = Inl (GraphQLError ''Task not found'') \<and>
        fst (deleteTask ident ctx s) = Inl (GraphQLError ''Task not found'')) \<and>
     (tasks_pkey s \<and> t \<in> set (tasks s) \<and> \<not> project_member s caller (task_project_id t) \<longrightarrow>
        fst (getTask (task_id t) ctx s) = Inl (GraphQLError ''Forbidden'') \<and>
        fst (updateTask_guard (task_id t) ctx s) =
          Inl (Error ''Insufficient permissions: Requires Contributor role or higher'') \<and>
        fst (deleteTask (task_id t) ctx s) =
          Inl (Error ''Insufficient permissions: Requires Contributor role or higher''))"
proof (intro conjI impI)
  assume none: "\<forall>t\<in>set (tasks s). task_id t \<noteq> ident"
  show "fst (getTask ident ctx s) = Inl (GraphQLError ''Task not found'')"
    by (simp add: getTask_def await_def authenticated_run [OF auth] select_task_run
        tasks_none [OF none] throw_def)
  show "fst (updateTask_guard ident ctx s) = Inl (GraphQLError ''Task not found'')"
    by (simp add: updateTask_guard_def await_def authenticated_run [OF auth] select_task_run
        tasks_none [OF none] throw_def)
  show "fst (deleteTask ident ctx s) = Inl (GraphQLError ''Task not found'')"
    by (simp add: deleteTask_def await_def authenticated_run [OF auth] select_task_run
        tasks_none [OF none] throw_def)
next
  assume h: "tasks_pkey s \<and> t \<in> set (tasks s) \<and> \<not> project_member s caller (task_project_id t)"
  then have row: "[x \<leftarrow> tasks s. task_id x = task_id t] = [t]" by (simp add: tasks_unique)
  from h have no: "project_member_roles (task_project_id t) caller s = []"
    by (simp add: project_member_roles_empty_iff)
  show "fst (getTask (task_id t) ctx s) = Inl (GraphQLError ''Forbidden'')"
    by (simp add: getTask_def await_def authenticated_run [OF auth] select_task_run row
        checkProjectAccess_run no throw_def)
  show "fst (updateTask_guard (task_id t) ctx s) =
          Inl (Error ''Insufficient permissions: Requires Contributor role or higher'')"
    by (simp add: updateTask_guard_def requireProjectAccess_def await_def
        authenticated_run [OF auth] select_task_run row checkProjectAccess_run no throw_def)
  show "fst (deleteTask (task_id t) ctx s) =
          Inl (Error ''Insufficient permissions: Requires Contributor role or higher'')"
    by (simp add: deleteTask_def requireProjectAccess_def await_def
        authenticated_run [OF auth] select_task_run row checkProjectAccess_run no throw_def)
qed

theorem task_lookup_precedes_authorization_witness:
  "ctx_userId (context_of ''u-cy'') = Some ''u-cy'' \<and> ''u-cy'' \<noteq> [] \<and>
   ''t9'' \<notin> set (map task_id (tasks site)) \<and>
   fst (getTask ''t9'' (context_of ''u-cy'') site) = Inl (GraphQLError ''Task not found'') \<and>
   tasks_pkey site \<and> \<not> project_member site ''u-cy'' ''p1'' \<and>
   fst (getTask ''t1'' (context_of ''u-cy'') site) = Inl (GraphQLError ''Forbidden'') \<and>
   fst (updateTask_guard ''t1'' (context_of ''u-cy'') site) =
     Inl (Error ''Insufficient permissions: Requires Contributor role or higher'')"
proof -
  let ?t = "\<lparr>task_id = ''t1'', task_project_id = ''p1'', task_title = ''First'',
             task_status = TODO, task_created_by = ''u-ben''\<rparr>"
  have h: "ctx_userId (context_of ''u-cy'') = Some ''u-cy''" "''u-cy'' \<noteq> []"
    by (simp_all add: context_of_def)
  have facts: "\<forall>t\<in>set (tasks site). task_id t \<noteq> ''t9''" "''t9'' \<notin> set (map task_id (tasks site))"
    "tasks_pkey site" "?t \<in> set (tasks site)" "\<not> project_member site ''u-cy'' ''p1''"
    by (simp_all add: site_defs predicate_defs project_member_def)
  from task_lookup_precedes_authorization [OF h, of site "''t9''" ?t] facts h
  show ?thesis by simp
qed

text \<open>
  C9, as stated, fails: Cy has no membership in project \<open>p1\<close>; asking for task \<open>t1\<close> he
  gets the authorization error when the task exists and \<open>Task not found\<close> when it does
  not.
\<close>

theorem getTask_reveals_existence:
  "\<not> project_member site ''u-cy'' ''p1'' \<and>
   fst (getTask ''t1'' (context_of ''u-cy'') site) = Inl (GraphQLError ''Forbidden'') \<and>
   fst (getTask ''t1'' (context_of ''u-cy'') (site\<lparr>tasks := []\<rparr>)) = Inl (GraphQLError ''Task not found'') \<and>
   fst (updateTask_guard ''t1'' (context_of ''u-cy'') site) =
     Inl (Error ''Insufficient permissions: Requires Contributor role or higher'') \<and>
   fst (updateTask_guard ''t1'' (context_of ''u-cy'') (site\<lparr>tasks := []\<rparr>)) =
     Inl (GraphQLError ''Task not found'')"
  by (simp add: getTask_def updateTask_guard_def handler_defs site_defs project_member_def)

text \<open>
  C10, as amended. If the target already holds a membership in the workspace
  (respectively the project), \<open>addWorkspaceMember\<close> (respectively \<open>addProjectMember\<close>)
  leaves the membership table as it was, whoever calls it: an existing Owner or Project
  Lead role is not overwritten. The mutation returns true when the caller passes its
  authorization check and, for \<open>addProjectMember\<close>, the target still holds a membership
  in the project's parent workspace.
\<close>

theorem add_member_keeps_existing_row:
  "(workspace_member s target w \<longrightarrow>
      workspace_members (snd (addWorkspaceMember w target ctx s)) = workspace_members s \<and>
      (ctx_userId ctx = Some caller \<and> caller \<noteq> [] \<and> holds_workspace_owner s caller w \<longrightarrow>
         fst (addWorkspaceMember w target ctx s) = Inr True)) \<and>
   (project_member s target p \<longrightarrow>
      project_members (snd (addProjectMember p target ctx s)) = project_members s \<and>
      (ctx_userId ctx = Some caller \<and> caller \<noteq> [] \<and> projects_pkey s \<and>
       (\<forall>P\<in>set (projects s). proj_workspace_id P \<noteq> []) \<and>
       (holds_project_lead s caller p \<or> owns_parent_workspace s caller p) \<and>
       P \<in> set (projects s) \<and> proj_id P = p \<and> workspace_member s target (proj_workspace_id P) \<longrightarrow>
         fst (addProjectMember p target ctx s) = Inr True))"
proof (intro conjI impI)
  assume "workspace_member s target w"
  then show "workspace_members (snd (addWorkspaceMember w target ctx s)) = workspace_members s"
    by (rule addWorkspaceMember_frame)
next
  assume m: "workspace_member s target w"
    and "ctx_userId ctx = Some caller \<and> caller \<noteq> [] \<and> holds_workspace_owner s caller w"
  then have c: "ctx_userId ctx = Some caller" "caller \<noteq> []" and o: "holds_workspace_owner s caller w"
    by simp_all
  show "fst (addWorkspaceMember w target ctx s) = Inr True"
    by (simp add: addWorkspaceMember_outcome [OF c] o insert_workspace_member_conflict [OF m])
next
  assume "project_member s target p"
  then show "project_members (snd (addProjectMember p target ctx s)) = project_members s"
    by (rule addProjectMember_frame)
next
  assume "project_member s target p"
    and "ctx_userId ctx = Some caller \<and> caller \<noteq> [] \<and> projects_pkey s \<and>
       (\<forall>P\<in>set (projects s). proj_workspace_id P \<noteq> []) \<and>
       (holds_project_lead s caller p \<or> owns_parent_workspace s caller p) \<and>
       P \<in> set (projects s) \<and> proj_id P = p \<and> workspace_member s target (proj_workspace_id P)"
  then show "fst (addProjectMember p target ctx s) = Inr True"
    by (intro addProjectMember_existing_true [where caller = caller and P = P]) simp_all
qed

theorem add_member_keeps_existing_row_witness:
  "workspace_member site ''u-ada'' ''w1'' \<and> holds_workspace_owner site ''u-ada'' ''w1'' \<and>
   fst (addWorkspaceMember ''w1'' ''u-ada'' (context_of ''u-ada'') site) = Inr True \<and>
   workspace_members (snd (addWorkspaceMember ''w1'' ''u-ada'' (context_of ''u-ada'') site)) =
     workspace_members site \<and>
   project_member site ''u-ben'' ''p1'' \<and> owns_parent_workspace site ''u-ada'' ''p1'' \<and>
   workspace_member site ''u-ben'' ''w1'' \<and>
   fst (addProjectMember ''p1'' ''u-ben'' (context_of ''u-ada'') site) = Inr True \<and>
   project_members (snd (addProjectMember ''p1'' ''u-ben'' (context_of ''u-ada'') site)) =
     [\<lparr>pm_project_id = ''p1'', pm_user_id = ''u-ben'', pm_role = Project_Lead\<rparr>]"
proof -
  let ?P = "\<lparr>proj_id = ''p1'', proj_workspace_id = ''w1'', proj_name = ''Alpha'',
             proj_created_by = ''u-ben''\<rparr>"
  have facts:
    "workspace_member site ''u-ada'' ''w1''" "holds_workspace_owner site ''u-ada'' ''w1''"
    "project_member site ''u-ben'' ''p1''" "owns_parent_workspace site ''u-ada'' ''p1''"
    "workspace_member site ''u-ben'' ''w1''"
    "ctx_userId (context_of ''u-ada'') = Some ''u-ada''" "''u-ada'' \<noteq> []"
    "projects_pkey site" "\<forall>P\<in>set (projects site). proj_workspace_id P \<noteq> []"
    "?P \<in> set (projects site)" "proj_id ?P = ''p1''" "proj_workspace_id ?P = ''w1''"
    "project_members site = [\<lparr>pm_project_id = ''p1'', pm_user_id = ''u-ben'', pm_role = Project_Lead\<rparr>]"
    by (simp_all add: site_defs predicate_defs project_member_def)
  from add_member_keeps_existing_row
    [where s = site and target = "''u-ada''" and w = "''w1''" and ctx = "context_of ''u-ada''"
       and caller = "''u-ada''" and p = "''p0''" and P = ?P] facts
  have ws: "fst (addWorkspaceMember ''w1'' ''u-ada'' (context_of ''u-ada'') site) = Inr True"
    "workspace_members (snd (addWorkspaceMember ''w1'' ''u-ada'' (context_of ''u-ada'') site)) =
     workspace_members site"
    by blast+
  from add_member_keeps_existing_row
    [where s = site and target = "''u-ben''" and w = "''w0''" and ctx = "context_of ''u-ada''"
       and caller = "''u-ada''" and p = "''p1''" and P = ?P] facts
  have pr: "fst (addProjectMember ''p1'' ''u-ben'' (context_of ''u-ada'') site) = Inr True"
    "project_members (snd (addProjectMember ''p1'' ''u-ben'' (context_of ''u-ada'') site)) =
     project_members site"
    by simp_all
  from ws pr facts show ?thesis by simp
qed

text \<open>
  C10, as stated, fails. Ada, Owner of \<open>w1\<close>, removes Ben from the workspace; his Project
  Lead row in \<open>p1\<close> stays. Ben then holds a membership in the project, Ada is authorized
  on it, and her \<open>addProjectMember\<close> for Ben does not return true: it throws
  \<open>User must be a workspace member first\<close>. His row is unchanged.
\<close>

theorem addProjectMember_existing_member_rejected:
  "(case removeWorkspaceMember ''w1'' ''u-ben'' (context_of ''u-ada'') site of
      (removed, s1) \<Rightarrow>
        removed = Inr True \<and>
        project_member s1 ''u-ben'' ''p1'' \<and>
        \<not> workspace_member s1 ''u-ben'' ''w1'' \<and>
        owns_parent_workspace s1 ''u-ada'' ''p1'' \<and>
        fst (addProjectMember ''p1'' ''u-ben'' (context_of ''u-ada'') s1) =
          Inl (GraphQLError ''User must be a workspace member first'') \<and>
        fst (addProjectMember ''p1'' ''u-ben'' (context_of ''u-ada'') s1) \<noteq> Inr True \<and>
        project_members (snd (addProjectMember ''p1'' ''u-ben'' (context_of ''u-ada'') s1)) =
          [\<lparr>pm_project_id = ''p1'', pm_user_id = ''u-ben'', pm_role = Project_Lead\<rparr>])"
  by (simp add: removeWorkspaceMember_def addProjectMember_def handler_defs site_defs
      predicate_defs project_member_def)

end
